theory Spec2Isabelle
  imports Main
begin

text \<open>
  The quiz server is an Express application over one lowdb document store per tenant. The
  definitions follow its latest, multi-tenant variant (\<^verbatim>\<open>src/unnamed/part_001\<close>); the
  line numbers in the comments are those of that file. The single-store variant
  \<^verbatim>\<open>src/server.js\<close> has the same scan handler (its lines 91 to 123).

  Every handler is synchronous, so a request runs from its first line to its reply before
  the next one starts: a handler is a function from the store before to the reply and the
  store after. The results of \<open>uuidv4()\<close> and \<open>Date.now()\<close> are inputs of the request.
\<close>

section \<open>JavaScript values used by the handlers\<close>

text \<open>
  Query parameters and cookies are strings that may be absent: \<open>None\<close> is JavaScript's
  \<open>undefined\<close>. Identifiers are strings (the server makes them with \<open>uuidv4()\<close>).
  Points, scores and counts are integers as in the data model, added as JavaScript adds
  numbers (see below). The stored documents have the shape the handlers write: every
  document has its id, the options of a task are an array of objects with label and points, and the id lists of an
  event are arrays of strings. A string is the sequence of the bytes of its UTF-8 encoding.
\<close>

definition truthy :: "string option \<Rightarrow> bool" where
  \<comment> \<open>\<open>if (v)\<close> for a string or undefined: the empty string is falsy\<close>
  "truthy v = (case v of None \<Rightarrow> False | Some s \<Rightarrow> s \<noteq> [])"

definition or_null :: "string option \<Rightarrow> string option" where
  \<comment> \<open>\<open>v || null\<close>\<close>
  "or_null v = (if truthy v then v else None)"

definition white_space :: "string list" where
  \<comment> \<open>the white space and line terminators of JavaScript, each as its UTF-8 bytes: the
      six of ASCII, U+00A0, U+1680, U+2000 to U+200A, U+2028, U+2029, U+202F, U+205F,
      U+3000 and U+FEFF\<close>
  "white_space =
     [[CHR 0x09], [CHR 0x0A], [CHR 0x0B], [CHR 0x0C], [CHR 0x0D], [CHR 0x20],
      [CHR 0xC2, CHR 0xA0],
      [CHR 0xE1, CHR 0x9A, CHR 0x80],
      [CHR 0xE2, CHR 0x80, CHR 0x80], [CHR 0xE2, CHR 0x80, CHR 0x81],
      [CHR 0xE2, CHR 0x80, CHR 0x82], [CHR 0xE2, CHR 0x80, CHR 0x83],
      [CHR 0xE2, CHR 0x80, CHR 0x84], [CHR 0xE2, CHR 0x80, CHR 0x85],
      [CHR 0xE2, CHR 0x80, CHR 0x86], [CHR 0xE2, CHR 0x80, CHR 0x87],
      [CHR 0xE2, CHR 0x80, CHR 0x88], [CHR 0xE2, CHR 0x80, CHR 0x89],
      [CHR 0xE2, CHR 0x80, CHR 0x8A],
      [CHR 0xE2, CHR 0x80, CHR 0xA8], [CHR 0xE2, CHR 0x80, CHR 0xA9],
      [CHR 0xE2, CHR 0x80, CHR 0xAF],
      [CHR 0xE2, CHR 0x81, CHR 0x9F],
      [CHR 0xE3, CHR 0x80, CHR 0x80],
      [CHR 0xEF, CHR 0xBB, CHR 0xBF]]"

fun strip_one :: "string list \<Rightarrow> string \<Rightarrow> string option" where
  \<comment> \<open>the string without the first of the given sequences that it starts with\<close>
  "strip_one [] s = None"
| "strip_one (w # ws) s =
     (if w \<noteq> [] \<and> take (length w) s = w then Some (drop (length w) s) else strip_one ws s)"

function skip_all :: "string list \<Rightarrow> string \<Rightarrow> string" where
  \<comment> \<open>the string without its longest prefix made of the given sequences\<close>
  "skip_all ws s = (if strip_one ws s = None then s else skip_all ws (the (strip_one ws s)))"
  by pat_completeness auto
termination
proof (relation "measure (\<lambda>(ws, s). length s)")
  show "wf (measure (\<lambda>(ws, s). length s))"
    by simp
next
  fix ws :: "string list" and s :: string
  assume "strip_one ws s \<noteq> None"
  then have "length (the (strip_one ws s)) < length s"
  proof (induction ws)
    case Nil
    then show ?case by simp
  next
    case (Cons w ws)
    show ?case
    proof (cases "w \<noteq> [] \<and> take (length w) s = w")
      case True
      then have "length w \<le> length s"
        by (metis length_take min.cobounded1)
      with True show ?thesis
        by (cases w) auto
    next
      case False
      with Cons show ?thesis by auto
    qed
  qed
  then show "((ws, the (strip_one ws s)), (ws, s)) \<in> measure (\<lambda>(ws, s). length s)"
    by simp
qed

declare skip_all.simps [simp del]

definition trim :: "string \<Rightarrow> string" where
  \<comment> \<open>\<open>s.trim()\<close>: white space is removed at both ends\<close>
  "trim s = rev (skip_all (map rev white_space) (rev (skip_all white_space s)))"

definition digit_val :: "char \<Rightarrow> nat option" where
  \<comment> \<open>the value of a decimal digit, \<open>None\<close> for any other character\<close>
  "digit_val c = map_of (zip ''0123456789'' [0, 1, 2, 3, 4, 5, 6, 7, 8, 9]) c"

fun digits_value :: "nat \<Rightarrow> string \<Rightarrow> nat" where
  \<comment> \<open>the value of the longest prefix of decimal digits, after the accumulator\<close>
  "digits_value acc [] = acc"
| "digits_value acc (c # cs) =
     (case digit_val c of None \<Rightarrow> acc | Some d \<Rightarrow> digits_value (10 * acc + d) cs)"

definition parseInt10 :: "string option \<Rightarrow> int option" where
  \<comment> \<open>\<open>parseInt(v, 10)\<close>; \<open>None\<close> is NaN. An absent value is first turned into the
      string "undefined", as ToString does.\<close>
  "parseInt10 v =
     (let s = skip_all white_space (case v of None \<Rightarrow> ''undefined'' | Some s \<Rightarrow> s);
          neg = (s \<noteq> [] \<and> hd s = CHR ''-'');
          body = (if s \<noteq> [] \<and> (hd s = CHR ''-'' \<or> hd s = CHR ''+'') then tl s else s)
      in case body of
           [] \<Rightarrow> None
         | c # cs \<Rightarrow>
             (case digit_val c of
                None \<Rightarrow> None
              | Some d \<Rightarrow> Some (if neg then - int (digits_value 0 body)
                               else int (digits_value 0 body))))"

definition digit_char :: "nat \<Rightarrow> char" where
  "digit_char d = ''0123456789'' ! (d mod 10)"

fun string_of_nat :: "nat \<Rightarrow> string" where
  \<comment> \<open>the decimal digits of a natural number\<close>
  "string_of_nat n =
     (if n < 10 then [digit_char n] else string_of_nat (n div 10) @ [digit_char (n mod 10)])"

declare string_of_nat.simps [simp del]

subsection \<open>Numbers\<close>

text \<open>
  A JavaScript number is an IEEE double. Points, scores and counts are integers as in the
  data model, so the numbers of the store are the integers that are doubles: every integer
  up to \<open>2\<^sup>5\<^sup>3\<close> in absolute value, and beyond that the integers with at most 53
  significant bits. The sum of two of them is the exact sum rounded to the nearest double,
  a tie going to the even significand. (A sum of \<open>2\<^sup>1\<^sup>0\<^sup>2\<^sup>4\<close> or more is \<open>Infinity\<close> in
  JavaScript, which is no integer; the definitions say nothing about it.)
\<close>

fun bit_length :: "nat \<Rightarrow> nat" where
  \<comment> \<open>the number of binary digits\<close>
  "bit_length n = (if n = 0 then 0 else 1 + bit_length (n div 2))"

declare bit_length.simps [simp del]

definition round_double :: "int \<Rightarrow> int" where
  \<comment> \<open>the double nearest to an integer: the integer itself up to \<open>2\<^sup>5\<^sup>3\<close>, else its 53
      leading bits, rounded to nearest, ties to even\<close>
  "round_double x =
     (if \<bar>x\<bar> \<le> 9007199254740992 then x
      else
        let m = nat \<bar>x\<bar>;
            e = bit_length m - 53;
            q = m div 2 ^ e;
            r = m mod 2 ^ e;
            q' = (if 2 ^ e < 2 * r \<or> (2 * r = 2 ^ e \<and> odd q) then q + 1 else q);
            v = int (q' * 2 ^ e)
        in if x < 0 then - v else v)"

definition js_add :: "int \<Rightarrow> int \<Rightarrow> int" where
  \<comment> \<open>\<open>a + b\<close> on numbers\<close>
  "js_add a b = round_double (a + b)"

text \<open>
  A number is printed with the fewest digits that still read back as the same double: an
  integer up to \<open>2\<^sup>5\<^sup>3\<close> with all its digits, a larger one with zeros for the digits that
  are not needed, and from \<open>10\<^sup>2\<^sup>1\<close> on with an exponent.
\<close>

fun shortest_decimal :: "nat \<Rightarrow> nat \<Rightarrow> nat" where
  \<comment> \<open>the decimal with the fewest significant digits that is read back as the double
      \<open>m\<close>, the nearest to \<open>m\<close> of these; the second argument counts the digits that may be
      replaced by zeros\<close>
  "shortest_decimal m 0 = m"
| "shortest_decimal m (Suc j) =
     (let t = 10 ^ Suc j;
          lo = (m div t) * t;
          hi = lo + t;
          lo_ok = (round_double (int lo) = int m);
          hi_ok = (round_double (int hi) = int m)
      in if lo_ok \<and> hi_ok then
           (if m - lo < hi - m \<or> (m - lo = hi - m \<and> even (m div t)) then lo else hi)
         else if lo_ok then lo
         else if hi_ok then hi
         else shortest_decimal m j)"

definition string_of_number :: "nat \<Rightarrow> string" where
  \<comment> \<open>Number::toString of a double that is a natural number: the shortest decimal, in
      full up to 21 digits and with an exponent from \<open>10\<^sup>2\<^sup>1\<close> on\<close>
  "string_of_number m =
     (let ds = string_of_nat (shortest_decimal m (length (string_of_nat m) - 1));
          n = length ds;
          sig = rev (dropWhile (\<lambda>c. c = CHR ''0'') (rev ds))
      in if n \<le> 21 then ds
         else hd sig # (if tl sig = [] then [] else CHR ''.'' # tl sig) @
              ''e+'' @ string_of_nat (n - 1))"

definition string_of_int :: "int \<Rightarrow> string" where
  \<comment> \<open>template-literal formatting of a number that is an integer\<close>
  "string_of_int i =
     (if i < 0 then CHR ''-'' # string_of_number (nat (- i)) else string_of_number (nat i))"

section \<open>lodash collection operations\<close>

fun update_first :: "('a \<Rightarrow> bool) \<Rightarrow> ('a \<Rightarrow> 'a) \<Rightarrow> 'a list \<Rightarrow> 'a list" where
  \<comment> \<open>\<open>coll.find(p).update(..)\<close> and \<open>coll.find(p).assign(..)\<close>: the first match is changed in
      place; with no match nothing happens\<close>
  "update_first p f [] = []"
| "update_first p f (x # xs) = (if p x then f x # xs else x # update_first p f xs)"

definition remove_all :: "('a \<Rightarrow> bool) \<Rightarrow> 'a list \<Rightarrow> 'a list" where
  \<comment> \<open>\<open>coll.remove(p)\<close>: every match is removed\<close>
  "remove_all p xs = filter (\<lambda>x. \<not> p x) xs"

definition nth_opt :: "'a list \<Rightarrow> int option \<Rightarrow> 'a option" where
  \<comment> \<open>\<open>xs[idx]\<close> for a number that may be NaN: undefined outside the array\<close>
  "nth_opt xs idx =
     (case idx of
        None \<Rightarrow> None
      | Some i \<Rightarrow> if 0 \<le> i \<and> i < int (length xs) then Some (xs ! nat i) else None)"

section \<open>The tenant data store\<close>

record team =
  team_id :: string
  team_name :: string
  score :: int

record answer_option =
  opt_label :: string
  opt_points :: int

record task =
  task_id :: string
  title :: string
  options :: "answer_option list"

record event =
  event_id :: string
  event_name :: string
  teamIds :: "string list"
  taskIds :: "string list"
  created :: int

record answer_record =
  rec_id :: string
  rec_teamId :: string
  rec_taskId :: string
  rec_optionIndex :: int
  rec_points :: int
  rec_eventId :: "string option"
  rec_time :: int

datatype log_entry =
    Join_log string string "string option" int
      \<comment> \<open>id, teamId, eventId, time\<close>
  | Answer_log string string string int int "string option" int
      \<comment> \<open>id, teamId, taskId, optionIndex, points, eventId, time\<close>
  | Bonus_log string "string option" int string int
      \<comment> \<open>id, teamId, points, by, time\<close>

record db =
  teams :: "team list"
  tasks :: "task list"
  records :: "answer_record list"
  events :: "event list"
  logs :: "log_entry list"

definition defaults :: db where
  \<comment> \<open>\<open>db.defaults({ teams: [], tasks: [], records: [], events: [], logs: [] })\<close>\<close>
  "defaults = \<lparr>teams = [], tasks = [], records = [], events = [], logs = []\<rparr>"

record env =
  uuidv4 :: "nat \<Rightarrow> string"  \<comment> \<open>the result of the n-th call of \<open>uuidv4()\<close> in a request\<close>
  Date_now :: "nat \<Rightarrow> int"   \<comment> \<open>the result of the n-th call of \<open>Date.now()\<close> in a request\<close>

datatype body =
    Ok_true
  | Id_json string
  | Teams_json "(string \<times> string) list"
  | Event_json event
  | Event_info "(string \<times> string) option"
  | Error_json string

datatype response =
    Send nat string     \<comment> \<open>\<open>res.status(n).send(text)\<close>\<close>
  | Redirect string     \<comment> \<open>\<open>res.redirect(url)\<close>\<close>
  | Json nat body       \<comment> \<open>\<open>res.status(n).json(..)\<close>, 200 when no status is set\<close>

definition find_by_id :: "('a \<Rightarrow> string) \<Rightarrow> 'a list \<Rightarrow> string option \<Rightarrow> 'a option" where
  \<comment> \<open>\<open>coll.find({ id: v }).value()\<close>: every stored document has an id, so an undefined
      \<open>v\<close> matches none\<close>
  "find_by_id ident xs v = (case v of None \<Rightarrow> None | Some i \<Rightarrow> find (\<lambda>x. ident x = i) xs)"

section \<open>GET /scan\<close>

text \<open>
  Lines 147 to 181. The handler first resolves the tenant and its store (lines 148 to 150,
  \<open>resolveTenantFromReq\<close> and \<open>getTenantDb\<close> below; the reply is 400 when no tenant
  resolves); \<open>scan\<close> is the rest of the handler on the resolved store.
\<close>

record scan_req =
  cookie_teamId :: "string option"
  cookie_eventId :: "string option"
  query_taskId :: "string option"
  query_optionIndex :: "string option"

definition event_gate :: "event list \<Rightarrow> string option \<Rightarrow> string \<Rightarrow> string \<Rightarrow> response option" where
  \<comment> \<open>lines 161 to 166, the block \<open>if (eventId) { .. }\<close>: \<open>Some\<close> is an early return\<close>
  "event_gate evs eventId taskId teamId =
     (if truthy eventId then
        (case find_by_id event_id evs eventId of
           None \<Rightarrow> Some (Send 400 ''Ugyldigt event'')
         | Some ev \<Rightarrow>
             if taskId \<notin> set (taskIds ev) then Some (Redirect ''/joined.html?notinEvent=true'')
             else if teamId \<notin> set (teamIds ev) then Some (Send 403 ''Hold ikke med i event'')
             else None)
      else None)"

definition scan_commit ::
  "db \<Rightarrow> string \<Rightarrow> string \<Rightarrow> string option \<Rightarrow> int \<Rightarrow> answer_option \<Rightarrow> env \<Rightarrow> db" where
  \<comment> \<open>lines 176 to 178, the three writes: push the record, update the score of the first
      team with the id (nothing happens when there is none), push the log entry\<close>
  "scan_commit d teamId taskId eventId idx opt e =
     (let d1 = d\<lparr>records := records d @
                 [\<lparr>rec_id = uuidv4 e 0, rec_teamId = teamId, rec_taskId = taskId,
                   rec_optionIndex = idx, rec_points = opt_points opt,
                   rec_eventId = eventId, rec_time = Date_now e 0\<rparr>]\<rparr>;
          d2 = d1\<lparr>teams := update_first (\<lambda>t. team_id t = teamId)
                 (\<lambda>t. t\<lparr>score := js_add (score t) (opt_points opt)\<rparr>) (teams d1)\<rparr>
      in d2\<lparr>logs := logs d2 @
            [Answer_log (uuidv4 e 1) teamId taskId idx (opt_points opt) eventId (Date_now e 1)]\<rparr>)"

definition scan :: "db \<Rightarrow> scan_req \<Rightarrow> env \<Rightarrow> response \<times> db" where
  \<comment> \<open>lines 152 to 180\<close>
  "scan d req e =
     (if \<not> truthy (cookie_teamId req) then (Redirect ''/join.html'', d)
      else
        let teamId = the (cookie_teamId req); eventId = or_null (cookie_eventId req) in
        case find_by_id task_id (tasks d) (query_taskId req) of
          None \<Rightarrow> (Send 400 ''Ugyldig opgave'', d)
        | Some task \<Rightarrow>
            let taskId = the (query_taskId req) in
            (case event_gate (events d) eventId taskId teamId of
               Some r \<Rightarrow> (r, d)
             | None \<Rightarrow>
                 if find (\<lambda>r. rec_teamId r = teamId \<and> rec_taskId r = taskId) (records d) \<noteq> None
                 then (Redirect ''/joined.html?already=true'', d)
                 else
                   let idx = parseInt10 (query_optionIndex req) in
                   (case nth_opt (options task) idx of
                      None \<Rightarrow> (Send 400 ''Ugyldig svar'', d)
                    | Some opt \<Rightarrow>
                        (Redirect (''/joined.html?points='' @ string_of_int (opt_points opt)),
                         scan_commit d teamId taskId eventId (the idx) opt e))))"

section \<open>GET /join.html\<close>

text \<open>Lines 122 to 145, after the tenant is resolved.\<close>

definition join ::
  "db \<Rightarrow> string \<Rightarrow> string option \<Rightarrow> string option \<Rightarrow> env \<Rightarrow> response \<times> (string \<times> string) list \<times> db" where
  \<comment> \<open>the tenant name, then the query parameters teamId and eventId; the second component
      lists the cookies set\<close>
  "join d tenant teamId eventId e =
     (case find_by_id team_id (teams d) teamId of
        None \<Rightarrow> (Send 400 ''Ugyldigt teamId'', [], d)
      | Some team \<Rightarrow>
          let tid = the teamId;
              d' = d\<lparr>logs := logs d @ [Join_log (uuidv4 e 0) tid (or_null eventId) (Date_now e 0)]\<rparr>
          in if truthy eventId then
               (case find_by_id event_id (events d) eventId of
                  None \<Rightarrow> (Send 400 ''Ugyldigt eventId'', [], d)
                | Some ev \<Rightarrow>
                    if tid \<notin> set (teamIds ev) then (Send 403 ''Hold ikke med i event'', [], d)
                    else (Redirect ''/joined.html'',
                          [(''eventId'', the eventId), (''tenant'', tenant), (''teamId'', tid)], d'))
             else (Redirect ''/joined.html'', [(''tenant'', tenant), (''teamId'', tid)], d'))"

section \<open>The tenant-scoped admin handlers\<close>

text \<open>
  Lines 259 to 385. These routes are behind the middleware \<open>adminApi\<close> (403 without the
  admin cookie) and \<open>withTenantDb\<close> (400 when no tenant resolves), which put the tenant's
  store in \<open>req.tenantDb\<close>; the definitions are the handlers on that store.
\<close>

definition admin_tasks_create :: "db \<Rightarrow> string \<Rightarrow> answer_option list \<Rightarrow> env \<Rightarrow> response \<times> db" where
  \<comment> \<open>lines 259 to 264\<close>
  "admin_tasks_create d ttl opts e =
     (let ident = uuidv4 e 0
      in (Json 200 (Id_json ident),
          d\<lparr>tasks := tasks d @ [\<lparr>task_id = ident, title = ttl, options = opts\<rparr>]\<rparr>))"

definition admin_tasks_delete :: "db \<Rightarrow> string \<Rightarrow> response \<times> db" where
  \<comment> \<open>lines 265 to 270\<close>
  "admin_tasks_delete d taskId =
     (let d1 = d\<lparr>tasks := remove_all (\<lambda>t. task_id t = taskId) (tasks d)\<rparr>;
          d2 = d1\<lparr>records := remove_all (\<lambda>r. rec_taskId r = taskId) (records d1)\<rparr>
      in (Json 200 Ok_true, d2))"

definition count_of :: "string option \<Rightarrow> int" where
  \<comment> \<open>line 274, \<open>parseInt(req.body.count, 10) || 1\<close>; a number in the body is read through
      its decimal string, as parseInt does\<close>
  "count_of v = (case parseInt10 v of None \<Rightarrow> 1 | Some n \<Rightarrow> if n = 0 then 1 else n)"

function teams_loop ::
  "int \<Rightarrow> env \<Rightarrow> nat \<Rightarrow> team list \<Rightarrow> (string \<times> string) list \<Rightarrow> team list \<times> (string \<times> string) list" where
  \<comment> \<open>lines 276 to 281, \<open>for (let i = 0; i < count; i++) { .. }\<close> over the stored teams
      and the reply list\<close>
  "teams_loop count e i ts out =
     (if int i < count then
        let ident = uuidv4 e i;
            name = ''Hold '' @ string_of_nat (length ts + 1)
        in teams_loop count e (Suc i)
             (ts @ [\<lparr>team_id = ident, team_name = name, score = 0\<rparr>]) (out @ [(ident, name)])
      else (ts, out))"
  by pat_completeness auto
termination
  by (relation "measure (\<lambda>(count, e, i, ts, out). nat (count - int i))") auto

declare teams_loop.simps [simp del]

definition admin_teams_create :: "db \<Rightarrow> string option \<Rightarrow> env \<Rightarrow> response \<times> db" where
  \<comment> \<open>lines 273 to 283\<close>
  "admin_teams_create d count_field e =
     (let count = count_of count_field;
          (ts, out) = teams_loop count e 0 (teams d) []
      in (Json 200 (Teams_json out), d\<lparr>teams := ts\<rparr>))"

definition admin_teams_reset :: "db \<Rightarrow> response \<times> db" where
  \<comment> \<open>lines 284 to 288\<close>
  "admin_teams_reset d = (Json 200 Ok_true, d\<lparr>teams := [], records := []\<rparr>)"

definition admin_events_create ::
  "db \<Rightarrow> string option \<Rightarrow> string list option \<Rightarrow> string list option \<Rightarrow> env \<Rightarrow> response \<times> db" where
  \<comment> \<open>lines 291 to 297; an absent \<open>teamIds\<close> or \<open>taskIds\<close> takes the default \<open>[]\<close> of the
      destructuring\<close>
  "admin_events_create d name team_ids task_ids e =
     (if \<not> truthy name then (Json 400 (Error_json ''Mangler navn''), d)
      else
        let ident = uuidv4 e 0
        in (Json 200 (Id_json ident),
            d\<lparr>events := events d @
               [\<lparr>event_id = ident, event_name = the name,
                 teamIds = (case team_ids of None \<Rightarrow> [] | Some xs \<Rightarrow> xs),
                 taskIds = (case task_ids of None \<Rightarrow> [] | Some xs \<Rightarrow> xs),
                 created = Date_now e 0\<rparr>]\<rparr>))"

definition Set_add :: "'a list \<Rightarrow> 'a \<Rightarrow> 'a list" where
  \<comment> \<open>a JavaScript Set keeps insertion order; adding a member again changes nothing\<close>
  "Set_add s x = (if x \<in> set s then s else s @ [x])"

definition Array_from_Set :: "'a list \<Rightarrow> 'a list" where
  \<comment> \<open>\<open>Array.from(new Set(xs))\<close>\<close>
  "Array_from_Set xs = foldl Set_add [] xs"

definition admin_events_append ::
  "db \<Rightarrow> string \<Rightarrow> string list option \<Rightarrow> string list option \<Rightarrow> response \<times> db" where
  \<comment> \<open>lines 306 to 318; the route parameter, then \<open>req.body.teamIds\<close> and
      \<open>req.body.taskIds\<close>, \<open>None\<close> when the field is not an array\<close>
  "admin_events_append d ident team_ids task_ids =
     (case find_by_id event_id (events d) (Some ident) of
        None \<Rightarrow> (Json 404 (Error_json ''Event ikke fundet''), d)
      | Some ev \<Rightarrow>
          let addTeams = (case team_ids of None \<Rightarrow> [] | Some xs \<Rightarrow> xs);
              addTasks = (case task_ids of None \<Rightarrow> [] | Some xs \<Rightarrow> xs);
              next = ev\<lparr>teamIds := Array_from_Set (teamIds ev @ addTeams),
                        taskIds := Array_from_Set (taskIds ev @ addTasks)\<rparr>
          in (Json 200 (Event_json next),
              d\<lparr>events := update_first (\<lambda>x. event_id x = event_id ev)
                   (\<lambda>x. x\<lparr>event_id := event_id next, event_name := event_name next,
                          teamIds := teamIds next, taskIds := taskIds next,
                          created := created next\<rparr>) (events d)\<rparr>))"

definition admin_logs_clear :: "db \<Rightarrow> response \<times> db" where
  \<comment> \<open>lines 353 to 356\<close>
  "admin_logs_clear d = (Json 200 Ok_true, d\<lparr>logs := []\<rparr>)"

definition admin_reset :: "db \<Rightarrow> response \<times> db" where
  \<comment> \<open>lines 366 to 370; \<open>teams.forEach(t => teams.find({ id: t.id }).assign({ score: 0 }))\<close>
      after the records are cleared\<close>
  "admin_reset d =
     (let d1 = d\<lparr>records := []\<rparr>
      in (Json 200 Ok_true,
          d1\<lparr>teams := fold (\<lambda>t ts. update_first (\<lambda>u. team_id u = team_id t)
                                 (\<lambda>u. u\<lparr>score := 0\<rparr>) ts) (teams d1) (teams d1)\<rparr>))"

definition admin_bonus ::
  "db \<Rightarrow> string list \<Rightarrow> string option \<Rightarrow> string option \<Rightarrow> int option \<Rightarrow> env \<Rightarrow> response \<times> db" where
  \<comment> \<open>lines 378 to 385; the user names of the core store, the adminUser cookie,
      \<open>req.body.teamId\<close> and \<open>Number(req.body.extra)\<close> (\<open>None\<close> is NaN)\<close>
  "admin_bonus d users adminUser teamId extra e =
     (let add = (case extra of None \<Rightarrow> 0 | Some n \<Rightarrow> n);
          d1 = d\<lparr>teams := (case teamId of
                              None \<Rightarrow> teams d
                            | Some i \<Rightarrow> update_first (\<lambda>t. team_id t = i)
                                         (\<lambda>t. t\<lparr>score := js_add (score t) add\<rparr>) (teams d))\<rparr>;
          byUser = find_by_id (\<lambda>u. u) users adminUser;
          d2 = d1\<lparr>logs := logs d1 @
                 [Bonus_log (uuidv4 e 0) teamId add
                    (case byUser of None \<Rightarrow> ''admin'' | Some u \<Rightarrow> u) (Date_now e 0)]\<rparr>
      in (Json 200 Ok_true, d2))"

section \<open>Requests that write to a tenant store\<close>

datatype op =
    Join string "string option" "string option" env
  | Scan scan_req env
  | Tasks_create string "answer_option list" env
  | Tasks_delete string
  | Teams_create "string option" env
  | Teams_reset
  | Events_create "string option" "string list option" "string list option" env
  | Events_append string "string list option" "string list option"
  | Logs_clear
  | Reset
  | Bonus "string list" "string option" "string option" "int option" env

fun step :: "db \<Rightarrow> op \<Rightarrow> db" where
  "step d (Join tenant teamId eventId e) = snd (snd (join d tenant teamId eventId e))"
| "step d (Scan req e) = snd (scan d req e)"
| "step d (Tasks_create ttl opts e) = snd (admin_tasks_create d ttl opts e)"
| "step d (Tasks_delete taskId) = snd (admin_tasks_delete d taskId)"
| "step d (Teams_create c e) = snd (admin_teams_create d c e)"
| "step d Teams_reset = snd (admin_teams_reset d)"
| "step d (Events_create name team_ids task_ids e) = snd (admin_events_create d name team_ids task_ids e)"
| "step d (Events_append ident team_ids task_ids) = snd (admin_events_append d ident team_ids task_ids)"
| "step d Logs_clear = snd (admin_logs_clear d)"
| "step d Reset = snd (admin_reset d)"
| "step d (Bonus users adminUser teamId extra e) = snd (admin_bonus d users adminUser teamId extra e)"

fun is_scan :: "op \<Rightarrow> bool" where
  "is_scan (Scan req e) = True"
| "is_scan other = False"

definition run :: "db \<Rightarrow> op list \<Rightarrow> db" where
  \<comment> \<open>the handlers are synchronous, so requests to one store run one after the other\<close>
  "run d ops = foldl step d ops"

section \<open>GET /api/score\<close>

definition api_score :: "db \<Rightarrow> string option \<Rightarrow> response + int \<times> string" where
  \<comment> \<open>lines 199 to 203, with the teamId cookie; \<open>Inr\<close> is the reply \<open>{ score, name }\<close>\<close>
  "api_score d teamId =
     (if \<not> truthy teamId then Inl (Json 400 (Error_json ''Ikke tilknyttet hold''))
      else case find_by_id team_id (teams d) teamId of
             None \<Rightarrow> Inl (Json 404 (Error_json ''Hold ikke fundet''))
           | Some team \<Rightarrow> Inr (score team, team_name team))"

section \<open>Tenant resolution and GET /api/event\<close>

record tenant_req =
  query_t :: "string option"
  cookie_tenant :: "string option"
  cookie_adminUser :: "string option"

definition js_or :: "string option \<Rightarrow> string option \<Rightarrow> string option" where
  \<comment> \<open>\<open>a || b\<close>\<close>
  "js_or a b = (if truthy a then a else b)"

definition resolveTenantFromReq :: "tenant_req \<Rightarrow> string option" where
  \<comment> \<open>lines 112 to 119\<close>
  "resolveTenantFromReq req =
     (let q = trim (the (js_or (query_t req) (Some [])));
          fromQuery = or_null (Some q);
          fromCookie = or_null (Some (trim (the
             (js_or (js_or (cookie_tenant req) (cookie_adminUser req)) (Some [])))))
      in js_or fromQuery fromCookie)"

datatype tenant_file = Absent | Malformed | Stored db

record server =
  tenantCache :: "string \<rightharpoonup> db"
  tenant_files :: "string \<Rightarrow> tenant_file"  \<comment> \<open>the file \<open>tenants/<name>.json\<close>\<close>

definition getTenantDb :: "server \<Rightarrow> string option \<Rightarrow> string + db \<times> server" where
  \<comment> \<open>lines 37 to 48. \<open>Inl\<close> is a thrown exception: the explicit "Missing tenant", or the
      one the file adapter throws when the tenant's file is not JSON\<close>
  "getTenantDb srv tenant =
     (let safe = trim (the (js_or tenant (Some [])))
      in if safe = [] then Inl ''Missing tenant''
         else case tenantCache srv safe of
                Some d \<Rightarrow> Inr (d, srv)
              | None \<Rightarrow>
                  (case tenant_files srv safe of
                     Malformed \<Rightarrow> Inl ''Malformed JSON''
                   | Absent \<Rightarrow>
                       Inr (defaults,
                            srv\<lparr>tenantCache := (tenantCache srv)(safe \<mapsto> defaults),
                                tenant_files := (tenant_files srv)(safe := Stored defaults)\<rparr>)
                   | Stored d \<Rightarrow> Inr (d, srv\<lparr>tenantCache := (tenantCache srv)(safe \<mapsto> d)\<rparr>)))"

definition api_event_try :: "server \<Rightarrow> tenant_req \<Rightarrow> string option \<Rightarrow> string + response \<times> server" where
  \<comment> \<open>lines 209 to 219, the body of the \<open>try\<close> block, with the eventId cookie; \<open>Inl\<close> is a
      thrown exception\<close>
  "api_event_try srv req eventId =
     (let tenant = resolveTenantFromReq req
      in if \<not> truthy tenant then Inr (Json 200 (Event_info None), srv)
         else case getTenantDb srv tenant of
                Inl err \<Rightarrow> Inl err
              | Inr (d, srv') \<Rightarrow>
                  if \<not> truthy eventId then Inr (Json 200 (Event_info None), srv')
                  else (case find_by_id event_id (events d) eventId of
                          None \<Rightarrow> Inr (Json 200 (Event_info None), srv')
                        | Some ev \<Rightarrow>
                            Inr (Json 200 (Event_info (Some (event_id ev, event_name ev))), srv')))"

definition api_event :: "server \<Rightarrow> tenant_req \<Rightarrow> string option \<Rightarrow> response \<times> server" where
  \<comment> \<open>lines 207 to 223, \<open>try { .. } catch { res.json({ event: null }) }\<close>\<close>
  "api_event srv req eventId =
     (case api_event_try srv req eventId of
        Inl err \<Rightarrow> (Json 200 (Event_info None), srv)
      | Inr result \<Rightarrow> result)"

section \<open>Notions used to state the properties\<close>

definition record_for :: "db \<Rightarrow> string \<Rightarrow> string \<Rightarrow> bool" where
  \<comment> \<open>a Record for the pair (teamId, taskId) exists\<close>
  "record_for d teamId taskId =
     list_ex (\<lambda>r. rec_teamId r = teamId \<and> rec_taskId r = taskId) (records d)"

definition one_record_per_pair :: "db \<Rightarrow> bool" where
  \<comment> \<open>at most one Record for every pair (teamId, taskId)\<close>
  "one_record_per_pair d = distinct (map (\<lambda>r. (rec_teamId r, rec_taskId r)) (records d))"

definition event_checks_pass :: "db \<Rightarrow> scan_req \<Rightarrow> bool" where
  \<comment> \<open>no event in session scope, or the event resolves and holds both the task and the team\<close>
  "event_checks_pass d req =
     (\<not> truthy (cookie_eventId req) \<or>
      (case find_by_id event_id (events d) (cookie_eventId req) of
         None \<Rightarrow> False
       | Some ev \<Rightarrow> the (query_taskId req) \<in> set (taskIds ev) \<and>
                   the (cookie_teamId req) \<in> set (teamIds ev)))"

definition passes_checks :: "db \<Rightarrow> scan_req \<Rightarrow> bool" where
  \<comment> \<open>team session present, task exists, event checks pass, no prior Record, optionIndex
      a valid index into the task's options\<close>
  "passes_checks d req =
     (truthy (cookie_teamId req) \<and>
      (case find_by_id task_id (tasks d) (query_taskId req) of
         None \<Rightarrow> False
       | Some task \<Rightarrow>
           event_checks_pass d req \<and>
           \<not> record_for d (the (cookie_teamId req)) (the (query_taskId req)) \<and>
           (case parseInt10 (query_optionIndex req) of
              None \<Rightarrow> False
            | Some i \<Rightarrow> 0 \<le> i \<and> i < int (length (options task)))))"

definition chosen_points :: "db \<Rightarrow> scan_req \<Rightarrow> int" where
  \<comment> \<open>the points of the option the request selects\<close>
  "chosen_points d req =
     opt_points (options (the (find_by_id task_id (tasks d) (query_taskId req))) !
                 nat (the (parseInt10 (query_optionIndex req))))"

definition score_of :: "db \<Rightarrow> string \<Rightarrow> int option" where
  \<comment> \<open>the score of the team with this id, as \<open>/api/score\<close> reads it\<close>
  "score_of d teamId = map_option score (find_by_id team_id (teams d) (Some teamId))"





definition new_team :: "env \<Rightarrow> nat \<Rightarrow> nat \<Rightarrow> team" where
  \<comment> \<open>the team made by iteration \<open>i\<close> of a batch that started with \<open>k\<close> teams\<close>
  "new_team e k i =
     \<lparr>team_id = uuidv4 e i, team_name = ''Hold '' @ string_of_nat (k + i + 1), score = 0\<rparr>"

fun fresh_ids :: "db \<Rightarrow> op \<Rightarrow> bool" where
  \<comment> \<open>the ids that \<open>uuidv4()\<close> gives to the teams of a batch are new and pairwise different\<close>
  "fresh_ids d (Teams_create c e) =
     (distinct (map (uuidv4 e) [0..<nat (count_of c)]) \<and>
      set (map (uuidv4 e) [0..<nat (count_of c)]) \<inter> set (map team_id (teams d)) = {})"
| "fresh_ids d other = True"

fun fresh_run :: "db \<Rightarrow> op list \<Rightarrow> bool" where
  "fresh_run d [] = True"
| "fresh_run d (x # xs) = (fresh_ids d x \<and> fresh_run (step d x) xs)"

section \<open>A small tenant\<close>

definition ex_env :: env where
  "ex_env = \<lparr>uuidv4 = (\<lambda>n. ''id-'' @ string_of_nat n), Date_now = (\<lambda>n. 1700000000000 + int n)\<rparr>"

definition ex_task :: task where
  "ex_task = \<lparr>task_id = ''T'', title = ''Q'',
              options = [\<lparr>opt_label = ''A'', opt_points = 10\<rparr>, \<lparr>opt_label = ''B'', opt_points = 0\<rparr>]\<rparr>"

definition ex_task2 :: task where
  "ex_task2 = \<lparr>task_id = ''U'', title = ''R'',
               options = [\<lparr>opt_label = ''A'', opt_points = 5\<rparr>, \<lparr>opt_label = ''B'', opt_points = - 3\<rparr>]\<rparr>"

definition ex_team :: team where
  "ex_team = \<lparr>team_id = ''X'', team_name = ''Hold 1'', score = 0\<rparr>"

definition ex_event :: event where
  \<comment> \<open>an event with the team and without the tasks\<close>
  "ex_event = \<lparr>event_id = ''E'', event_name = ''Finale'', teamIds = [''X''], taskIds = [], created = 0\<rparr>"

definition ex_event2 :: event where
  \<comment> \<open>an event with a task and without the team\<close>
  "ex_event2 = \<lparr>event_id = ''F'', event_name = ''Runde 2'', teamIds = [], taskIds = [''T''], created = 0\<rparr>"

definition ex_db :: db where
  "ex_db = \<lparr>teams = [ex_team], tasks = [ex_task, ex_task2], records = [],
            events = [ex_event, ex_event2], logs = []\<rparr>"

definition ex_scan :: "string \<Rightarrow> string option \<Rightarrow> string \<Rightarrow> string \<Rightarrow> scan_req" where
  \<comment> \<open>the team cookie, the event cookie, the task and the optionIndex of a scan\<close>
  "ex_scan team ev k i = \<lparr>cookie_teamId = Some team, cookie_eventId = ev,
               query_taskId = Some k, query_optionIndex = Some i\<rparr>"

definition ex_answered :: db where
  \<comment> \<open>the tenant after team X has answered task T with option 0, no event in scope\<close>
  "ex_answered = snd (scan ex_db (ex_scan ''X'' None ''T'' ''0'') ex_env)"


definition ex_server :: server where
  \<comment> \<open>tenant acme is loaded, the file of tenant broken is not JSON, no other file exists\<close>
  "ex_server = \<lparr>tenantCache = [''acme'' \<mapsto> ex_db],
                tenant_files = (\<lambda>name. if name = ''broken'' then Malformed else Absent)\<rparr>"

definition ex_tenant :: "string option \<Rightarrow> tenant_req" where
  \<comment> \<open>a request whose only tenant hint is the tenant cookie\<close>
  "ex_tenant c = \<lparr>query_t = None, cookie_tenant = c, cookie_adminUser = None\<rparr>"

section \<open>Facts about the collection operations\<close>

lemma update_first_map_key:
  "(\<And>x. g (f x) = g x) \<Longrightarrow> map g (update_first p f xs) = map g xs"
  by (induction xs) auto

lemma update_first_no_match:
  "find p xs = None \<Longrightarrow> update_first p f xs = xs"
  by (induction xs) (auto split: if_splits)

lemma length_update_first: "length (update_first p f xs) = length xs"
  by (induction xs) auto

lemma update_first_distinct_key:
  "distinct (map g xs) \<Longrightarrow> (\<And>x. g (f x) = g x) \<Longrightarrow>
   update_first (\<lambda>x. g x = i) f xs = map (\<lambda>x. if g x = i then f x else x) xs"
proof (induction xs)
  case Nil
  then show ?case by simp
next
  case (Cons x xs)
  show ?case
  proof (cases "g x = i")
    case True
    with Cons.prems(1) have "\<forall>y \<in> set xs. g y \<noteq> i"
      by (auto simp: image_iff)
    then have "map (\<lambda>x. if g x = i then f x else x) xs = xs"
      by (simp add: map_idI)
    with True show ?thesis by simp
  next
    case False
    with Cons show ?thesis by simp
  qed
qed

lemma find_None_iff_list_ex: "(find p xs = None) = (\<not> list_ex p xs)"
  by (induction xs) auto

lemma find_Some_holds: "find p xs = Some x \<Longrightarrow> p x"
  by (induction xs) (auto split: if_splits)

lemma find_by_id_None_iff:
  "(find_by_id ident xs (Some i) = None) = (\<not> list_ex (\<lambda>x. ident x = i) xs)"
  by (simp add: find_by_id_def find_None_iff_list_ex)

lemma find_update_first_same:
  "(\<And>x. team_id (f x) = team_id x) \<Longrightarrow>
   find (\<lambda>t. team_id t = i) (update_first (\<lambda>t. team_id t = i) f ts) =
   map_option f (find (\<lambda>t. team_id t = i) ts)"
  by (induction ts) auto

lemma find_update_first_other:
  "(\<And>x. team_id (f x) = team_id x) \<Longrightarrow> j \<noteq> i \<Longrightarrow>
   find (\<lambda>t. team_id t = j) (update_first (\<lambda>t. team_id t = i) f ts) =
   find (\<lambda>t. team_id t = j) ts"
  by (induction ts) auto

lemma find_update_first_hit:
  "(\<And>x. p x \<Longrightarrow> p (f x)) \<Longrightarrow> find p (update_first p f xs) = map_option f (find p xs)"
  by (induction xs) auto

lemma find_update_first_miss:
  "(\<And>x. p x \<Longrightarrow> \<not> q x) \<Longrightarrow> (\<And>x. p x \<Longrightarrow> \<not> q (f x)) \<Longrightarrow>
   find q (update_first p f xs) = find q xs"
  by (induction xs) auto

lemma sum_scores_update_first:
  "find (\<lambda>t. team_id t = i) ts = Some t \<Longrightarrow>
   sum_list (map score (update_first (\<lambda>t. team_id t = i) (\<lambda>t. t\<lparr>score := g (score t)\<rparr>) ts)) =
   sum_list (map score ts) - score t + g (score t)"
  by (induction ts) (auto split: if_splits)

lemma js_add_exact: "\<bar>a + b\<bar> \<le> 9007199254740992 \<Longrightarrow> js_add a b = a + b"
  by (simp add: js_add_def round_double_def)





lemma truthy_None [simp]: "\<not> truthy None"
  by (simp add: truthy_def)

lemma truthy_or_null [simp]: "truthy (or_null v) = truthy v"
  by (simp add: or_null_def)

lemma or_null_truthy: "truthy v \<Longrightarrow> or_null v = v"
  by (simp add: or_null_def)

lemma or_null_falsy: "\<not> truthy v \<Longrightarrow> or_null v = None"
  by (simp add: or_null_def)

lemma set_foldl_Set_add: "set (foldl Set_add acc xs) = set acc \<union> set xs"
  by (induction xs arbitrary: acc) (auto simp: Set_add_def)

lemma distinct_foldl_Set_add: "distinct acc \<Longrightarrow> distinct (foldl Set_add acc xs)"
  by (induction xs arbitrary: acc) (auto simp: Set_add_def)

lemma set_Array_from_Set: "set (Array_from_Set xs) = set xs"
  by (simp add: Array_from_Set_def set_foldl_Set_add)

lemma distinct_Array_from_Set: "distinct (Array_from_Set xs)"
  by (simp add: Array_from_Set_def distinct_foldl_Set_add)

subsection \<open>Decimal numerals\<close>

lemma below_ten_cases:
  "(n::nat) < 10 \<Longrightarrow> n \<in> {0, 1, 2, 3, 4, 5, 6, 7, 8, 9}"
  by (simp, arith)

lemma digit_val_digit_char: "d < 10 \<Longrightarrow> digit_val (digit_char d) = Some d"
  using below_ten_cases [of d] by (auto simp: digit_val_def digit_char_def)

lemma strip_one_Nil: "strip_one ws [] = None"
  by (induction ws) auto

lemma take_other_head: "w \<noteq> [] \<Longrightarrow> hd w \<noteq> c \<Longrightarrow> take (length w) (c # cs) \<noteq> w"
  by (cases w) auto

lemma strip_one_other_head:
  "\<forall>w \<in> set ws. w \<noteq> [] \<longrightarrow> hd w \<noteq> c \<Longrightarrow> strip_one ws (c # cs) = None"
  by (induction ws) (auto simp: take_other_head)

lemma digit_char_decimal: "digit_char d \<in> set ''0123456789''"
  using below_ten_cases [of "d mod 10"] by (auto simp: digit_char_def)

lemma white_space_heads: "\<forall>w \<in> set white_space. w \<noteq> [] \<longrightarrow> hd w \<notin> set ''0123456789''"
  by (simp add: white_space_def)

lemma strip_one_digit_char: "strip_one white_space (digit_char d # cs) = None"
  using white_space_heads digit_char_decimal [of d]
  by (intro strip_one_other_head) metis

lemma skip_all_digit_char: "skip_all white_space (digit_char d # cs) = digit_char d # cs"
  by (subst skip_all.simps) (simp add: strip_one_digit_char)

lemma sign_digit_char: "digit_char d \<noteq> CHR ''-''" "digit_char d \<noteq> CHR ''+''"
  using below_ten_cases [of "d mod 10"] by (auto simp: digit_char_def)

lemma digits_value_snoc:
  "\<forall>c \<in> set xs. digit_val c \<noteq> None \<Longrightarrow>
   digits_value acc (xs @ ys) = digits_value (digits_value acc xs) ys"
  by (induction xs arbitrary: acc) auto

lemma string_of_nat_digit: "n < 10 \<Longrightarrow> string_of_nat n = [digit_char n]"
  by (simp add: string_of_nat.simps)

lemma string_of_nat_digits: "\<forall>c \<in> set (string_of_nat n). digit_val c \<noteq> None"
proof (induction n rule: string_of_nat.induct)
  case (1 n)
  show ?case
  proof (cases "n < 10")
    case True
    then show ?thesis
      by (subst string_of_nat.simps) (simp add: digit_val_digit_char)
  next
    case False
    with 1 show ?thesis
      by (subst string_of_nat.simps) (simp add: digit_val_digit_char)
  qed
qed

lemma digits_value_string_of_nat: "digits_value 0 (string_of_nat n) = n"
proof (induction n rule: string_of_nat.induct)
  case (1 n)
  show ?case
  proof (cases "n < 10")
    case True
    then show ?thesis
      by (subst string_of_nat.simps) (simp add: digit_val_digit_char)
  next
    case False
    with 1 show ?thesis
      by (subst string_of_nat.simps)
         (simp add: digits_value_snoc string_of_nat_digits digit_val_digit_char)
  qed
qed

lemma string_of_nat_first:
  "\<exists>d cs. string_of_nat n = digit_char d # cs \<and> d < 10"
proof (induction n rule: string_of_nat.induct)
  case (1 n)
  show ?case
  proof (cases "n < 10")
    case True
    then show ?thesis
      by (subst string_of_nat.simps) auto
  next
    case False
    with 1 obtain d cs where "string_of_nat (n div 10) = digit_char d # cs" "d < 10"
      by blast
    with False show ?thesis
      by (subst string_of_nat.simps) auto
  qed
qed

lemma parseInt10_string_of_nat: "parseInt10 (Some (string_of_nat n)) = Some (int n)"
proof -
  from string_of_nat_first [of n] obtain d cs where
    s: "string_of_nat n = digit_char d # cs" and d: "d < 10"
    by blast
  have "digits_value 0 (digit_char d # cs) = n"
    using digits_value_string_of_nat [of n] by (simp only: s)
  then show ?thesis
    using d
    by (simp add: parseInt10_def s skip_all_digit_char sign_digit_char digit_val_digit_char
        del: digits_value.simps)
qed

lemma count_of_string_of_nat: "0 < n \<Longrightarrow> count_of (Some (string_of_nat n)) = int n"
  by (simp add: count_of_def parseInt10_string_of_nat)

section \<open>The scan handler\<close>

lemma event_gate_pass:
  "event_checks_pass d req \<Longrightarrow>
   event_gate (events d) (or_null (cookie_eventId req)) (the (query_taskId req)) (the (cookie_teamId req)) = None"
  by (cases "truthy (cookie_eventId req)")
     (auto simp: event_checks_pass_def event_gate_def or_null_truthy split: option.splits)

lemma scan_passes:
  assumes "passes_checks d req"
  shows "scan d req e =
     (Redirect (''/joined.html?points='' @ string_of_int (chosen_points d req)),
      scan_commit d (the (cookie_teamId req)) (the (query_taskId req)) (or_null (cookie_eventId req))
        (the (parseInt10 (query_optionIndex req)))
        (options (the (find_by_id task_id (tasks d) (query_taskId req))) !
                 nat (the (parseInt10 (query_optionIndex req)))) e)"
proof -
  from assms obtain task i where
    t: "truthy (cookie_teamId req)" and
    k: "find_by_id task_id (tasks d) (query_taskId req) = Some task" and
    g: "event_checks_pass d req" and
    r: "\<not> record_for d (the (cookie_teamId req)) (the (query_taskId req))" and
    p: "parseInt10 (query_optionIndex req) = Some i" and
    b: "0 \<le> i" "i < int (length (options task))"
    by (auto simp: passes_checks_def split: option.splits)
  from r have f: "find (\<lambda>r. rec_teamId r = the (cookie_teamId req) \<and> rec_taskId r = the (query_taskId req))
      (records d) = None"
    by (simp add: record_for_def find_None_iff_list_ex)
  from b have n: "nth_opt (options task) (Some i) = Some (options task ! nat i)"
    by (simp add: nth_opt_def)
  show ?thesis
    by (simp add: scan_def t k event_gate_pass [OF g] f n p chosen_points_def Let_def)
qed

lemma scan_commit_records:
  "records (scan_commit d tid kid ev i opt e) = records d @
     [\<lparr>rec_id = uuidv4 e 0, rec_teamId = tid, rec_taskId = kid, rec_optionIndex = i,
       rec_points = opt_points opt, rec_eventId = ev, rec_time = Date_now e 0\<rparr>]"
  by (simp add: scan_commit_def Let_def)

lemma scan_commit_logs:
  "logs (scan_commit d tid kid ev i opt e) = logs d @
     [Answer_log (uuidv4 e 1) tid kid i (opt_points opt) ev (Date_now e 1)]"
  by (simp add: scan_commit_def Let_def)

lemma scan_commit_teams:
  "teams (scan_commit d tid kid ev i opt e) =
     update_first (\<lambda>t. team_id t = tid)
       (\<lambda>t. t\<lparr>score := js_add (score t) (opt_points opt)\<rparr>) (teams d)"
  by (simp add: scan_commit_def Let_def)

lemma scan_commit_frame:
  "tasks (scan_commit d tid kid ev i opt e) = tasks d"
  "events (scan_commit d tid kid ev i opt e) = events d"
  by (simp_all add: scan_commit_def Let_def)

lemma score_of_scan_commit_same:
  "score_of (scan_commit d tid kid ev i opt e) tid =
     map_option (\<lambda>s. js_add s (opt_points opt)) (score_of d tid)"
  by (simp add: score_of_def find_by_id_def scan_commit_teams find_update_first_same
      option.map_comp comp_def)

lemma score_of_scan_commit_other:
  "j \<noteq> tid \<Longrightarrow> score_of (scan_commit d tid kid ev i opt e) j = score_of d j"
  by (simp add: score_of_def find_by_id_def scan_commit_teams find_update_first_other)

lemma scan_passes_effect:
  assumes "passes_checks d req"
  shows "fst (scan d req e) =
           Redirect (''/joined.html?points='' @ string_of_int (chosen_points d req))"
    and "\<exists>i n. records (snd (scan d req e)) = records d @
           [\<lparr>rec_id = i, rec_teamId = the (cookie_teamId req), rec_taskId = the (query_taskId req),
             rec_optionIndex = the (parseInt10 (query_optionIndex req)),
             rec_points = chosen_points d req,
             rec_eventId = or_null (cookie_eventId req), rec_time = n\<rparr>]"
    and "\<exists>i n. logs (snd (scan d req e)) = logs d @
           [Answer_log i (the (cookie_teamId req)) (the (query_taskId req))
              (the (parseInt10 (query_optionIndex req))) (chosen_points d req)
              (or_null (cookie_eventId req)) n]"
    and "score_of (snd (scan d req e)) (the (cookie_teamId req)) =
           map_option (\<lambda>s. js_add s (chosen_points d req)) (score_of d (the (cookie_teamId req)))"
    and "j \<noteq> the (cookie_teamId req) \<Longrightarrow> score_of (snd (scan d req e)) j = score_of d j"
    and "score_of d (the (cookie_teamId req)) = Some s \<Longrightarrow>
         sum_list (map score (teams (snd (scan d req e)))) =
           sum_list (map score (teams d)) - s + js_add s (chosen_points d req)"
    and "map team_id (teams (snd (scan d req e))) = map team_id (teams d)"
    and "map team_name (teams (snd (scan d req e))) = map team_name (teams d)"
    and "tasks (snd (scan d req e)) = tasks d"
    and "events (snd (scan d req e)) = events d"
proof -
  note sp = scan_passes [OF assms, of e]
  show "fst (scan d req e) =
           Redirect (''/joined.html?points='' @ string_of_int (chosen_points d req))"
    by (simp add: sp)
  show "\<exists>i n. records (snd (scan d req e)) = records d @
           [\<lparr>rec_id = i, rec_teamId = the (cookie_teamId req), rec_taskId = the (query_taskId req),
             rec_optionIndex = the (parseInt10 (query_optionIndex req)),
             rec_points = chosen_points d req,
             rec_eventId = or_null (cookie_eventId req), rec_time = n\<rparr>]"
    by (simp add: sp scan_commit_records chosen_points_def)
  show "\<exists>i n. logs (snd (scan d req e)) = logs d @
           [Answer_log i (the (cookie_teamId req)) (the (query_taskId req))
              (the (parseInt10 (query_optionIndex req))) (chosen_points d req)
              (or_null (cookie_eventId req)) n]"
    by (simp add: sp scan_commit_logs chosen_points_def)
  show "score_of (snd (scan d req e)) (the (cookie_teamId req)) =
           map_option (\<lambda>s. js_add s (chosen_points d req)) (score_of d (the (cookie_teamId req)))"
    by (simp add: sp score_of_scan_commit_same chosen_points_def)
  show "j \<noteq> the (cookie_teamId req) \<Longrightarrow> score_of (snd (scan d req e)) j = score_of d j"
    by (simp add: sp score_of_scan_commit_other)
  show "sum_list (map score (teams (snd (scan d req e)))) =
           sum_list (map score (teams d)) - s + js_add s (chosen_points d req)"
    if "score_of d (the (cookie_teamId req)) = Some s"
  proof -
    from that obtain t where
      t: "find (\<lambda>t. team_id t = the (cookie_teamId req)) (teams d) = Some t" and "score t = s"
      by (auto simp: score_of_def find_by_id_def)
    with sum_scores_update_first [OF t, of "\<lambda>x. js_add x (chosen_points d req)"] show ?thesis
      by (simp add: sp scan_commit_teams chosen_points_def)
  qed
  show "map team_id (teams (snd (scan d req e))) = map team_id (teams d)"
    by (simp add: sp scan_commit_teams update_first_map_key)
  show "map team_name (teams (snd (scan d req e))) = map team_name (teams d)"
    by (simp add: sp scan_commit_teams update_first_map_key)
  show "tasks (snd (scan d req e)) = tasks d"
    by (simp add: sp scan_commit_frame)
  show "events (snd (scan d req e)) = events d"
    by (simp add: sp scan_commit_frame)
qed

lemma scan_state_cases:
  "snd (scan d req e) = d \<or> passes_checks d req"
proof (cases "passes_checks d req")
  case True
  then show ?thesis by simp
next
  case False
  have "snd (scan d req e) = d"
  proof (cases "truthy (cookie_teamId req)")
    case no_team: False
    then show ?thesis by (simp add: scan_def)
  next
    case team: True
    show ?thesis
    proof (cases "find_by_id task_id (tasks d) (query_taskId req)")
      case None
      with team show ?thesis by (simp add: scan_def)
    next
      case (Some task)
      show ?thesis
      proof (cases "event_gate (events d) (or_null (cookie_eventId req))
                      (the (query_taskId req)) (the (cookie_teamId req))")
        case stop: (Some r)
        with team Some show ?thesis by (simp add: scan_def)
      next
        case pass: None
        then have ev: "event_checks_pass d req"
          by (cases "truthy (cookie_eventId req)")
             (auto simp: event_gate_def event_checks_pass_def or_null_truthy
               split: option.splits if_splits)
        show ?thesis
        proof (cases "record_for d (the (cookie_teamId req)) (the (query_taskId req))")
          case True
          then have "find (\<lambda>r. rec_teamId r = the (cookie_teamId req) \<and>
                        rec_taskId r = the (query_taskId req)) (records d) \<noteq> None"
            by (simp add: record_for_def find_None_iff_list_ex)
          with team Some pass show ?thesis by (simp add: scan_def)
        next
          case norec: False
          with False team Some ev
          have "nth_opt (options task) (parseInt10 (query_optionIndex req)) = None"
            by (auto simp: passes_checks_def nth_opt_def split: option.splits)
          with team Some pass show ?thesis by (simp add: scan_def Let_def)
        qed
      qed
    qed
  qed
  then show ?thesis by simp
qed

lemma scan_already:
  assumes "truthy (cookie_teamId req)"
    and "find_by_id task_id (tasks d) (query_taskId req) \<noteq> None"
    and "event_checks_pass d req"
    and "record_for d (the (cookie_teamId req)) (the (query_taskId req))"
  shows "scan d req e = (Redirect ''/joined.html?already=true'', d)"
proof -
  from assms(4) have "find (\<lambda>r. rec_teamId r = the (cookie_teamId req) \<and>
      rec_taskId r = the (query_taskId req)) (records d) \<noteq> None"
    by (simp add: record_for_def find_None_iff_list_ex)
  with assms(1,2) event_gate_pass [OF assms(3)] show ?thesis
    by (auto simp: scan_def)
qed

lemma scan_records:
  "records (snd (scan d req e)) = records d \<or>
   (\<not> record_for d (the (cookie_teamId req)) (the (query_taskId req)) \<and>
    (\<exists>r. records (snd (scan d req e)) = records d @ [r] \<and>
         rec_teamId r = the (cookie_teamId req) \<and> rec_taskId r = the (query_taskId req)))"
proof (cases "passes_checks d req")
  case True
  then have "\<not> record_for d (the (cookie_teamId req)) (the (query_taskId req))"
    by (auto simp: passes_checks_def split: option.splits)
  moreover from scan_passes_effect(2) [OF True, of e]
  have "\<exists>r. records (snd (scan d req e)) = records d @ [r] \<and>
         rec_teamId r = the (cookie_teamId req) \<and> rec_taskId r = the (query_taskId req)"
    by auto
  ultimately show ?thesis by simp
next
  case False
  with scan_state_cases [of d req e] show ?thesis by simp
qed

lemma scan_team_ids: "map team_id (teams (snd (scan d req e))) = map team_id (teams d)"
  using scan_state_cases [of d req e] scan_passes_effect(7) [of d req e] by auto




subsection \<open>Sequences of scans\<close>





subsection \<open>Evaluation on the small tenant\<close>

lemma skip_all_Nil: "skip_all ws [] = []"
  by (subst skip_all.simps) (simp add: strip_one_Nil)

lemma skip_all_Cons:
  "skip_all ws (c # cs) =
     (if strip_one ws (c # cs) = None then c # cs
      else skip_all ws (the (strip_one ws (c # cs))))"
  by (subst skip_all.simps) simp

lemmas js_defs = truthy_def or_null_def js_or_def white_space_def skip_all_Nil skip_all_Cons
  trim_def parseInt10_def digit_val_def
  nth_opt_def find_by_id_def digit_char_def

lemma string_of_int_digit:
  "0 \<le> i \<Longrightarrow> i < 10 \<Longrightarrow> string_of_int i = [digit_char (nat i)]"
  "- 10 < i \<Longrightarrow> i < 0 \<Longrightarrow> string_of_int i = [CHR ''-'', digit_char (nat (- i))]"
  by (simp_all add: string_of_int_def string_of_number_def string_of_nat_digit Let_def)


lemmas ex_defs = ex_env_def ex_task_def ex_task2_def ex_team_def ex_event_def ex_event2_def
  ex_db_def ex_scan_def ex_server_def ex_tenant_def

lemmas check_defs = passes_checks_def event_checks_pass_def record_for_def chosen_points_def
  score_of_def

lemma ex_answered_eq:
  "ex_answered =
     \<lparr>teams = [\<lparr>team_id = ''X'', team_name = ''Hold 1'', score = 10\<rparr>],
      tasks = [ex_task, ex_task2],
      records = [\<lparr>rec_id = ''id-0'', rec_teamId = ''X'', rec_taskId = ''T'', rec_optionIndex = 0,
                  rec_points = 10, rec_eventId = None, rec_time = 1700000000000\<rparr>],
      events = [ex_event, ex_event2],
      logs = [Answer_log ''id-1'' ''X'' ''T'' 0 10 None 1700000000001]\<rparr>"
  by (simp add: ex_answered_def scan_def scan_commit_def event_gate_def Let_def js_defs ex_defs
      string_of_nat_digit js_add_exact)


subsection \<open>A scan that passes all checks\<close>




text \<open>
  C10. The scan handler never looks the team up. With no Team matching the teamId cookie,
  a scan that passes all checks still succeeds: it redirects with the points, appends a
  Record and an answer log entry for that team id and leaves every team as it was, while
  \<open>/api/score\<close> answers 404 for the same cookie.
\<close>

theorem scan_unknown_team:
  assumes "passes_checks d req"
    and "\<not> list_ex (\<lambda>t. team_id t = the (cookie_teamId req)) (teams d)"
  shows "fst (scan d req e) =
           Redirect (''/joined.html?points='' @ string_of_int (chosen_points d req)) \<and>
         teams (snd (scan d req e)) = teams d \<and>
         (\<exists>r. records (snd (scan d req e)) = records d @ [r] \<and>
              rec_teamId r = the (cookie_teamId req) \<and> rec_taskId r = the (query_taskId req) \<and>
              rec_points r = chosen_points d req) \<and>
         (\<exists>i t. logs (snd (scan d req e)) = logs d @
              [Answer_log i (the (cookie_teamId req)) (the (query_taskId req))
                 (the (parseInt10 (query_optionIndex req))) (chosen_points d req)
                 (or_null (cookie_eventId req)) t]) \<and>
         api_score (snd (scan d req e)) (cookie_teamId req) =
           Inl (Json 404 (Error_json ''Hold ikke fundet''))"
proof -
  from assms(1) have t: "truthy (cookie_teamId req)"
    by (simp add: passes_checks_def)
  then have c: "cookie_teamId req = Some (the (cookie_teamId req))"
    by (cases "cookie_teamId req") simp_all
  from assms(2) have n: "find (\<lambda>t. team_id t = the (cookie_teamId req)) (teams d) = None"
    by (simp add: find_None_iff_list_ex)
  have same: "teams (snd (scan d req e)) = teams d"
    by (simp add: scan_passes [OF assms(1)] scan_commit_teams update_first_no_match [OF n])
  from n c have "find_by_id team_id (teams d) (cookie_teamId req) = None"
    by (cases "cookie_teamId req") (simp_all add: find_by_id_def)
  with t same have "api_score (snd (scan d req e)) (cookie_teamId req) =
      Inl (Json 404 (Error_json ''Hold ikke fundet''))"
    by (simp add: api_score_def)
  moreover from scan_passes_effect(2) [OF assms(1), of e]
  have "\<exists>r. records (snd (scan d req e)) = records d @ [r] \<and>
      rec_teamId r = the (cookie_teamId req) \<and> rec_taskId r = the (query_taskId req) \<and>
      rec_points r = chosen_points d req"
    by auto
  moreover note scan_passes_effect(3) [OF assms(1), of e]
  ultimately show ?thesis
    using same scan_passes_effect(1) [OF assms(1), of e] by simp
qed

theorem scan_unknown_team_witness:
  "passes_checks ex_db (ex_scan ''ghost'' None ''U'' ''1'') \<and>
   \<not> list_ex (\<lambda>t. team_id t = ''ghost'') (teams ex_db) \<and>
   fst (scan ex_db (ex_scan ''ghost'' None ''U'' ''1'') ex_env) = Redirect ''/joined.html?points=-3'' \<and>
   teams (snd (scan ex_db (ex_scan ''ghost'' None ''U'' ''1'') ex_env)) = [ex_team] \<and>
   api_score (snd (scan ex_db (ex_scan ''ghost'' None ''U'' ''1'') ex_env)) (Some ''ghost'') =
     Inl (Json 404 (Error_json ''Hold ikke fundet''))"
proof -
  let ?r = "ex_scan ''ghost'' None ''U'' ''1''"
  have p: "passes_checks ex_db ?r"
    by (simp add: check_defs js_defs ex_defs)
  have c: "chosen_points ex_db ?r = - 3"
    by (simp add: check_defs js_defs ex_defs)
  have g: "the (cookie_teamId ?r) = ''ghost''" "cookie_teamId ?r = Some ''ghost''"
    by (simp_all add: ex_scan_def)
  have n: "\<not> list_ex (\<lambda>t. team_id t = the (cookie_teamId ?r)) (teams ex_db)"
    by (simp add: ex_defs)
  have t: "teams ex_db = [ex_team]"
    by (simp add: ex_db_def)
  have s: "string_of_int (- 3) = ''-3''"
    by (simp add: string_of_int_digit digit_char_def)
  from scan_unknown_team [OF p n, of ex_env] p n show ?thesis
    by (simp add: c g t s)
qed

subsection \<open>A scan for a pair that has a Record\<close>

text \<open>
  C2, as amended. When a Record for (teamId, taskId) exists, a scan for that pair with any
  optionIndex leaves the whole store unchanged, and it is answered with the AlreadyAnswered
  redirect whenever the team session is present, the task exists and the event checks pass
  (these three checks come before the look-up of the Record).
\<close>

theorem scan_existing_record:
  assumes "record_for d teamId taskId"
    and "cookie_teamId req = Some teamId"
    and "query_taskId req = Some taskId"
  shows "snd (scan d req e) = d \<and>
         (truthy (cookie_teamId req) \<and>
          find_by_id task_id (tasks d) (query_taskId req) \<noteq> None \<and>
          event_checks_pass d req \<longrightarrow>
          fst (scan d req e) = Redirect ''/joined.html?already=true'')"
proof -
  from assms have r: "record_for d (the (cookie_teamId req)) (the (query_taskId req))"
    by simp
  then have "\<not> passes_checks d req"
    by (auto simp: passes_checks_def split: option.splits)
  with scan_state_cases [of d req e] have "snd (scan d req e) = d"
    by simp
  with r show ?thesis
    by (simp add: scan_already)
qed

theorem scan_existing_record_witness:
  "record_for ex_answered ''X'' ''T'' \<and>
   scan ex_answered (ex_scan ''X'' None ''T'' ''1'') ex_env =
     (Redirect ''/joined.html?already=true'', ex_answered) \<and>
   scan ex_answered (ex_scan ''X'' None ''T'' ''no number'') ex_env =
     (Redirect ''/joined.html?already=true'', ex_answered)"
proof -
  have r: "record_for ex_answered ''X'' ''T''"
    by (simp add: ex_answered_eq record_for_def)
  have pre: "truthy (cookie_teamId (ex_scan ''X'' None ''T'' i)) \<and>
      find_by_id task_id (tasks ex_answered) (query_taskId (ex_scan ''X'' None ''T'' i)) \<noteq> None \<and>
      event_checks_pass ex_answered (ex_scan ''X'' None ''T'' i)" for i
    by (simp add: ex_answered_eq check_defs js_defs ex_defs)
  have "scan ex_answered (ex_scan ''X'' None ''T'' i) ex_env =
     (Redirect ''/joined.html?already=true'', ex_answered)" for i
    using scan_existing_record [OF r, of "ex_scan ''X'' None ''T'' i" ex_env] pre [of i]
    by (simp add: ex_scan_def prod_eq_iff)
  with r show ?thesis
    by simp
qed

text \<open>
  C2 as stated fails: team X has answered task T and then scans it again with event E in
  session scope, an event that does not hold T. The Record exists, and the reply is the
  notInEvent redirect, not AlreadyAnswered.
\<close>

theorem scan_existing_record_counterexample:
  "record_for ex_answered ''X'' ''T'' \<and>
   scan ex_answered (ex_scan ''X'' (Some ''E'') ''T'' ''0'') ex_env =
     (Redirect ''/joined.html?notinEvent=true'', ex_answered) \<and>
   fst (scan ex_answered (ex_scan ''X'' (Some ''E'') ''T'' ''0'') ex_env) \<noteq>
     Redirect ''/joined.html?already=true''"
  by (simp add: ex_answered_eq record_for_def scan_def event_gate_def Let_def js_defs ex_defs)

subsection \<open>A scan with an event in session scope\<close>

text \<open>
  C4, as amended. For a scan with a team session and a task id that resolves to a Task,
  carrying an event id in session scope: if the event id resolves to no Event the reply is
  400 (invalid event); otherwise if the task id is not in the event's taskIds the reply is
  the notInEvent redirect, whether or not the team is in the event; otherwise if the team
  id is not in the event's teamIds the reply is 403. The store is unchanged in all three.
\<close>

theorem scan_event_checks:
  assumes "truthy (cookie_teamId req)"
    and "find_by_id task_id (tasks d) (query_taskId req) \<noteq> None"
    and "truthy (cookie_eventId req)"
  shows "(find_by_id event_id (events d) (cookie_eventId req) = None \<longrightarrow>
            scan d req e = (Send 400 ''Ugyldigt event'', d)) \<and>
         (\<forall>ev. find_by_id event_id (events d) (cookie_eventId req) = Some ev \<and>
               the (query_taskId req) \<notin> set (taskIds ev) \<longrightarrow>
            scan d req e = (Redirect ''/joined.html?notinEvent=true'', d)) \<and>
         (\<forall>ev. find_by_id event_id (events d) (cookie_eventId req) = Some ev \<and>
               the (query_taskId req) \<in> set (taskIds ev) \<and>
               the (cookie_teamId req) \<notin> set (teamIds ev) \<longrightarrow>
            scan d req e = (Send 403 ''Hold ikke med i event'', d))"
  using assms
  by (auto simp: scan_def event_gate_def or_null_truthy)

theorem scan_event_checks_witness:
  "scan ex_db (ex_scan ''X'' (Some ''none'') ''T'' ''0'') ex_env = (Send 400 ''Ugyldigt event'', ex_db) \<and>
   scan ex_db (ex_scan ''Y'' (Some ''E'') ''T'' ''0'') ex_env =
     (Redirect ''/joined.html?notinEvent=true'', ex_db) \<and>
   scan ex_db (ex_scan ''X'' (Some ''F'') ''T'' ''0'') ex_env =
     (Send 403 ''Hold ikke med i event'', ex_db)"
proof -
  have pre: "truthy (cookie_teamId (ex_scan t (Some v) ''T'' ''0''))"
    "find_by_id task_id (tasks ex_db) (query_taskId (ex_scan t (Some v) ''T'' ''0'')) \<noteq> None"
    "truthy (cookie_eventId (ex_scan t (Some v) ''T'' ''0''))"
    if "t \<noteq> []" "v \<noteq> []" for t v
    using that by (simp_all add: js_defs ex_defs)
  have e0: "find_by_id event_id (events ex_db) (Some ''none'') = None"
    and e1: "find_by_id event_id (events ex_db) (Some ''E'') = Some ex_event"
    and e2: "find_by_id event_id (events ex_db) (Some ''F'') = Some ex_event2"
    by (simp_all add: js_defs ex_defs)
  have m: "''T'' \<notin> set (taskIds ex_event)" "''T'' \<in> set (taskIds ex_event2)"
    "''X'' \<notin> set (teamIds ex_event2)"
    by (simp_all add: ex_defs)
  have "scan ex_db (ex_scan ''X'' (Some ''none'') ''T'' ''0'') ex_env = (Send 400 ''Ugyldigt event'', ex_db)"
    using scan_event_checks [OF pre, of "''X''" "''none''" ex_env] e0
    by (simp add: ex_scan_def)
  moreover have "scan ex_db (ex_scan ''Y'' (Some ''E'') ''T'' ''0'') ex_env =
     (Redirect ''/joined.html?notinEvent=true'', ex_db)"
    using scan_event_checks [OF pre, of "''Y''" "''E''" ex_env] e1 m
    by (simp add: ex_scan_def)
  moreover have "scan ex_db (ex_scan ''X'' (Some ''F'') ''T'' ''0'') ex_env =
     (Send 403 ''Hold ikke med i event'', ex_db)"
    using scan_event_checks [OF pre, of "''X''" "''F''" ex_env] e2 m
    by (simp add: ex_scan_def)
  ultimately show ?thesis
    by simp
qed

text \<open>
  C4 as stated fails: with event E in session scope and a task id that names no Task (so it
  is not in the event's taskIds either), the reply is 400 for the task, not the notInEvent
  redirect. The task look-up comes before the event checks.
\<close>

theorem scan_event_checks_counterexample:
  "truthy (cookie_eventId (ex_scan ''X'' (Some ''E'') ''nope'' ''0'')) \<and>
   find_by_id event_id (events ex_db) (Some ''E'') = Some ex_event \<and>
   ''nope'' \<notin> set (taskIds ex_event) \<and>
   scan ex_db (ex_scan ''X'' (Some ''E'') ''nope'' ''0'') ex_env = (Send 400 ''Ugyldig opgave'', ex_db) \<and>
   fst (scan ex_db (ex_scan ''X'' (Some ''E'') ''nope'' ''0'') ex_env) \<noteq>
     Redirect ''/joined.html?notinEvent=true''"
  by (simp add: scan_def Let_def js_defs ex_defs)

section \<open>One Record for every pair of team and task\<close>

lemma teams_create_records: "records (snd (admin_teams_create d c e)) = records d"
  by (simp add: admin_teams_create_def split: prod.splits)

lemma join_records: "records (snd (snd (join d tenant teamId eventId e))) = records d"
  by (simp add: join_def Let_def split: option.splits)

lemma events_create_records:
  "records (snd (admin_events_create d name team_ids task_ids e)) = records d"
  by (simp add: admin_events_create_def Let_def)

lemma events_append_records:
  "records (snd (admin_events_append d ident team_ids task_ids)) = records d"
  by (simp add: admin_events_append_def Let_def split: option.splits)

lemma bonus_records: "records (snd (admin_bonus d users adminUser teamId extra e)) = records d"
  by (simp add: admin_bonus_def Let_def)

lemma tasks_delete_records:
  "records (snd (admin_tasks_delete d k)) = filter (\<lambda>r. rec_taskId r \<noteq> k) (records d)"
  by (simp add: admin_tasks_delete_def remove_all_def Let_def)

lemma scan_keeps_one_record_per_pair:
  assumes "one_record_per_pair d"
  shows "one_record_per_pair (snd (scan d req e))"
proof -
  from scan_records [of d req e] show ?thesis
  proof
    assume "records (snd (scan d req e)) = records d"
    with assms show ?thesis by (simp add: one_record_per_pair_def)
  next
    assume a: "\<not> record_for d (the (cookie_teamId req)) (the (query_taskId req)) \<and>
      (\<exists>r. records (snd (scan d req e)) = records d @ [r] \<and>
         rec_teamId r = the (cookie_teamId req) \<and> rec_taskId r = the (query_taskId req))"
    then obtain r where r: "records (snd (scan d req e)) = records d @ [r]"
      "rec_teamId r = the (cookie_teamId req)" "rec_taskId r = the (query_taskId req)"
      by blast
    from a have "(rec_teamId r, rec_taskId r) \<notin> (\<lambda>r. (rec_teamId r, rec_taskId r)) ` set (records d)"
      by (auto simp: record_for_def list_ex_iff r)
    with assms r(1) show ?thesis
      by (simp add: one_record_per_pair_def)
  qed
qed

lemma step_keeps_one_record_per_pair:
  "one_record_per_pair d \<Longrightarrow> one_record_per_pair (step d op)"
proof (cases op)
  case (Scan req e)
  assume "one_record_per_pair d"
  then show ?thesis
    by (simp add: Scan scan_keeps_one_record_per_pair)
next
  case (Tasks_delete k)
  assume "one_record_per_pair d"
  then show ?thesis
    by (simp add: Tasks_delete one_record_per_pair_def tasks_delete_records distinct_map_filter)
qed (simp_all add: one_record_per_pair_def join_records teams_create_records
      events_create_records events_append_records bonus_records admin_tasks_create_def
      admin_teams_reset_def admin_logs_clear_def admin_reset_def Let_def)

lemma run_keeps_one_record_per_pair:
  "one_record_per_pair d \<Longrightarrow> one_record_per_pair (run d ops)"
  unfolding run_def
  by (induction ops arbitrary: d) (simp_all add: step_keeps_one_record_per_pair)

lemma step_no_new_records:
  "\<not> is_scan op \<Longrightarrow> set (records (step d op)) \<subseteq> set (records d)"
  by (cases op)
     (simp_all add: join_records teams_create_records events_create_records
       events_append_records bonus_records tasks_delete_records admin_tasks_create_def
       admin_teams_reset_def admin_logs_clear_def admin_reset_def Let_def)

text \<open>
  C1. In every store reached from the empty defaults by any sequence of requests there is
  at most one Record for every pair (teamId, taskId), and every request preserves this.
  A scan either leaves the Records as they are or finds no Record for its pair and appends
  one Record for exactly that pair; every other request leaves the set of Records as it is
  or makes it smaller.
\<close>

theorem one_record_per_pair_invariant:
  "(\<forall>ops. one_record_per_pair (run defaults ops)) \<and>
   (\<forall>d op. one_record_per_pair d \<longrightarrow> one_record_per_pair (step d op)) \<and>
   (\<forall>d req e.
      records (snd (scan d req e)) = records d \<or>
      (\<not> record_for d (the (cookie_teamId req)) (the (query_taskId req)) \<and>
       (\<exists>r. records (snd (scan d req e)) = records d @ [r] \<and>
            rec_teamId r = the (cookie_teamId req) \<and> rec_taskId r = the (query_taskId req)))) \<and>
   (\<forall>d op. \<not> is_scan op \<longrightarrow> set (records (step d op)) \<subseteq> set (records d))"
proof (intro conjI allI impI)
  fix ops
  have "one_record_per_pair defaults"
    by (simp add: one_record_per_pair_def defaults_def)
  then show "one_record_per_pair (run defaults ops)"
    by (rule run_keeps_one_record_per_pair)
qed (simp_all add: step_keeps_one_record_per_pair scan_records step_no_new_records)

theorem one_record_per_pair_invariant_witness:
  "one_record_per_pair ex_answered \<and>
   one_record_per_pair (step ex_answered (Scan (ex_scan ''X'' None ''T'' ''1'') ex_env)) \<and>
   one_record_per_pair (step ex_answered (Scan (ex_scan ''X'' None ''U'' ''1'') ex_env)) \<and>
   \<not> is_scan (Tasks_delete ''T'') \<and>
   set (records (step ex_answered (Tasks_delete ''T''))) \<subseteq> set (records ex_answered)"
proof -
  have a: "one_record_per_pair ex_answered"
    by (simp add: ex_answered_eq one_record_per_pair_def)
  from one_record_per_pair_invariant
  have s: "one_record_per_pair ex_answered \<longrightarrow> one_record_per_pair (step ex_answered op)" for op
    by blast
  from one_record_per_pair_invariant
  have n: "\<not> is_scan (Tasks_delete ''T'') \<longrightarrow>
      set (records (step ex_answered (Tasks_delete ''T''))) \<subseteq> set (records ex_answered)"
    by blast
  from a s n show ?thesis
    by (simp del: step.simps)
qed

section \<open>Deleting a task\<close>

text \<open>
  C7. Deleting a task removes the Tasks with that id and exactly the Records whose taskId
  is that id; the other Records stay, in their order, and the teams with their scores, the
  events and the logs are untouched.
\<close>

theorem tasks_delete_effect:
  "fst (admin_tasks_delete d k) = Json 200 Ok_true \<and>
   tasks (snd (admin_tasks_delete d k)) = filter (\<lambda>t. task_id t \<noteq> k) (tasks d) \<and>
   records (snd (admin_tasks_delete d k)) = filter (\<lambda>r. rec_taskId r \<noteq> k) (records d) \<and>
   set (records (snd (admin_tasks_delete d k))) = set (records d) - {r. rec_taskId r = k} \<and>
   logs (snd (admin_tasks_delete d k)) = logs d \<and>
   teams (snd (admin_tasks_delete d k)) = teams d \<and>
   score_of (snd (admin_tasks_delete d k)) j = score_of d j \<and>
   events (snd (admin_tasks_delete d k)) = events d"
  by (auto simp: admin_tasks_delete_def remove_all_def Let_def score_of_def)

section \<open>Creating teams in a batch\<close>

lemma teams_loop_closed:
  "length ts = k + i \<Longrightarrow>
   teams_loop count e i ts out =
     (ts @ map (new_team e k) [i..<nat count],
      out @ map (\<lambda>j. (team_id (new_team e k j), team_name (new_team e k j))) [i..<nat count])"
proof (induction count e i ts out rule: teams_loop.induct)
  case (1 count e i ts out)
  show ?case
  proof (cases "int i < count")
    case True
    then have r: "[i..<nat count] = i # [Suc i..<nat count]"
      by (simp add: upt_conv_Cons)
    from "1.prems" have "length (ts @ [\<lparr>team_id = uuidv4 e i,
        team_name = ''Hold '' @ string_of_nat (length ts + 1), score = 0\<rparr>]) = k + Suc i"
      by simp
    from "1.IH" [OF True refl refl this] True "1.prems" show ?thesis
      by (subst teams_loop.simps) (simp add: r new_team_def Let_def)
  next
    case False
    then show ?thesis
      by (subst teams_loop.simps) simp
  qed
qed

lemma admin_teams_create_closed:
  "admin_teams_create d c e =
     (Json 200 (Teams_json (map (\<lambda>j. (uuidv4 e j, ''Hold '' @ string_of_nat (length (teams d) + j + 1)))
                  [0..<nat (count_of c)])),
      d\<lparr>teams := teams d @ map (new_team e (length (teams d))) [0..<nat (count_of c)]\<rparr>)"
  by (simp add: admin_teams_create_def teams_loop_closed [where k = "length (teams d)"]
      new_team_def Let_def)

text \<open>
  C6. In a tenant holding \<open>k\<close> teams, the batch creation with the handler's \<open>count\<close>
  appends \<open>count\<close> new teams, in order, the one of iteration \<open>j\<close> named "Hold" (the Danish
  for team) with the number \<open>k + j + 1\<close>, which is the team count plus one at the moment
  it is created, each with score 0, and replies with their ids and names. A body count of
  decimal \<open>n > 0\<close> gives \<open>count = n\<close>. On the empty tenant, a count of 3 yields Hold 1,
  Hold 2, Hold 3.
\<close>

theorem teams_create_batch:
  "(\<forall>d c e. admin_teams_create d c e =
      (Json 200 (Teams_json
         (map (\<lambda>j. (uuidv4 e j, ''Hold '' @ string_of_nat (length (teams d) + j + 1)))
            [0..<nat (count_of c)])),
       d\<lparr>teams := teams d @
            map (\<lambda>j. \<lparr>team_id = uuidv4 e j,
                       team_name = ''Hold '' @ string_of_nat (length (teams d) + j + 1),
                       score = 0\<rparr>) [0..<nat (count_of c)]\<rparr>)) \<and>
   (\<forall>n. 0 < n \<longrightarrow> count_of (Some (string_of_nat n)) = int n) \<and>
   (\<forall>e. map team_name (teams (snd (admin_teams_create defaults (Some ''3'') e))) =
          [''Hold 1'', ''Hold 2'', ''Hold 3''] \<and>
        map score (teams (snd (admin_teams_create defaults (Some ''3'') e))) = [0, 0, 0])"
proof (intro conjI allI impI)
  fix d :: db and c e
  have "new_team e (length (teams d)) =
      (\<lambda>j. \<lparr>team_id = uuidv4 e j,
             team_name = ''Hold '' @ string_of_nat (length (teams d) + j + 1), score = 0\<rparr>)"
    by (rule ext) (simp add: new_team_def)
  then show "admin_teams_create d c e =
      (Json 200 (Teams_json
         (map (\<lambda>j. (uuidv4 e j, ''Hold '' @ string_of_nat (length (teams d) + j + 1)))
            [0..<nat (count_of c)])),
       d\<lparr>teams := teams d @
            map (\<lambda>j. \<lparr>team_id = uuidv4 e j,
                       team_name = ''Hold '' @ string_of_nat (length (teams d) + j + 1),
                       score = 0\<rparr>) [0..<nat (count_of c)]\<rparr>)"
    by (simp add: admin_teams_create_closed)
next
  fix n :: nat
  assume "0 < n"
  then show "count_of (Some (string_of_nat n)) = int n"
    by (rule count_of_string_of_nat)
next
  fix e
  have c: "count_of (Some ''3'') = 3"
    by (simp add: count_of_def js_defs)
  have u: "[0..<3] = [0, 1, 2]"
    by (simp add: upt_rec)
  show "map team_name (teams (snd (admin_teams_create defaults (Some ''3'') e))) =
      [''Hold 1'', ''Hold 2'', ''Hold 3'']"
    by (simp add: admin_teams_create_closed c u new_team_def defaults_def string_of_nat_digit
        digit_char_def)
  show "map score (teams (snd (admin_teams_create defaults (Some ''3'') e))) = [0, 0, 0]"
    by (simp add: admin_teams_create_closed c u new_team_def defaults_def)
qed

theorem teams_create_batch_witness:
  "(0::nat) < 3 \<and> string_of_nat 3 = ''3'' \<and> count_of (Some ''3'') = 3 \<and>
   map team_name (teams (snd (admin_teams_create ex_db (Some ''2'') ex_env))) =
     [''Hold 1'', ''Hold 2'', ''Hold 3'']"
proof -
  have s: "string_of_nat 3 = ''3''"
    by (simp add: string_of_nat_digit digit_char_def)
  from teams_create_batch have "(0::nat) < 3 \<longrightarrow> count_of (Some (string_of_nat 3)) = int 3"
    by blast
  then have c: "count_of (Some ''3'') = 3"
    by (simp add: s)
  have c2: "count_of (Some ''2'') = 2"
    by (simp add: count_of_def js_defs)
  have u: "[0..<2] = [0, 1]"
    by (simp add: upt_rec)
  from teams_create_batch
  have "admin_teams_create ex_db (Some ''2'') ex_env =
      (Json 200 (Teams_json
         (map (\<lambda>j. (uuidv4 ex_env j, ''Hold '' @ string_of_nat (length (teams ex_db) + j + 1)))
            [0..<nat (count_of (Some ''2''))])),
       ex_db\<lparr>teams := teams ex_db @
            map (\<lambda>j. \<lparr>team_id = uuidv4 ex_env j,
                       team_name = ''Hold '' @ string_of_nat (length (teams ex_db) + j + 1),
                       score = 0\<rparr>) [0..<nat (count_of (Some ''2''))]\<rparr>)"
    by blast
  then have "map team_name (teams (snd (admin_teams_create ex_db (Some ''2'') ex_env))) =
     [''Hold 1'', ''Hold 2'', ''Hold 3'']"
    by (simp add: c2 u ex_db_def ex_team_def string_of_nat_digit digit_char_def)
  with s c show ?thesis
    by simp
qed

lemma ex_db_reachable:
  "run defaults
     [Teams_create (Some ''1'') \<lparr>uuidv4 = (\<lambda>n. ''X''), Date_now = (\<lambda>n. 0)\<rparr>,
      Tasks_create ''Q'' [\<lparr>opt_label = ''A'', opt_points = 10\<rparr>, \<lparr>opt_label = ''B'', opt_points = 0\<rparr>]
        \<lparr>uuidv4 = (\<lambda>n. ''T''), Date_now = (\<lambda>n. 0)\<rparr>,
      Tasks_create ''R'' [\<lparr>opt_label = ''A'', opt_points = 5\<rparr>, \<lparr>opt_label = ''B'', opt_points = - 3\<rparr>]
        \<lparr>uuidv4 = (\<lambda>n. ''U''), Date_now = (\<lambda>n. 0)\<rparr>,
      Events_create (Some ''Finale'') (Some [''X'']) None \<lparr>uuidv4 = (\<lambda>n. ''E''), Date_now = (\<lambda>n. 0)\<rparr>,
      Events_create (Some ''Runde 2'') None (Some [''T'']) \<lparr>uuidv4 = (\<lambda>n. ''F''), Date_now = (\<lambda>n. 0)\<rparr>]
   = ex_db"
proof -
  have c: "count_of (Some ''1'') = 1"
    by (simp add: count_of_def js_defs)
  show ?thesis
    by (simp add: run_def admin_teams_create_closed c new_team_def admin_tasks_create_def
        admin_events_create_def defaults_def Let_def truthy_def string_of_nat_digit
        digit_char_def ex_defs)
qed

section \<open>Resetting the scores\<close>

text \<open>
  Teams are only made by the batch creation, with ids from \<open>uuidv4()\<close>. As long as these
  are new, the team ids of a store stay pairwise different. The reset of the scores zeroes
  a team through \<open>find({ id: t.id })\<close>, the first team with that id, so this is what it
  relies on.
\<close>

lemma zero_scores_fold_ids:
  fixes ts xs :: "team list"
  shows "map team_id (fold (\<lambda>t ts. update_first (\<lambda>u. team_id u = team_id t)
           (\<lambda>u. u\<lparr>score := 0\<rparr>) ts) xs ts) = map team_id ts"
  by (induction xs arbitrary: ts) (simp_all add: update_first_map_key)

lemma step_team_ids:
  "map team_id (teams (step d op)) = map team_id (teams d) \<or>
   teams (step d op) = [] \<or>
   (\<exists>c e. op = Teams_create c e)"
  by (cases op)
     (simp_all add: scan_team_ids join_def admin_tasks_create_def admin_tasks_delete_def
       admin_teams_reset_def admin_events_create_def admin_events_append_def
       admin_logs_clear_def admin_reset_def admin_bonus_def zero_scores_fold_ids
       update_first_map_key Let_def split: option.splits)

lemma step_keeps_team_ids_distinct:
  assumes "distinct (map team_id (teams d))" and "fresh_ids d op"
  shows "distinct (map team_id (teams (step d op)))"
proof (cases "\<exists>c e. op = Teams_create c e")
  case True
  then obtain c e where op: "op = Teams_create c e"
    by blast
  have "team_id \<circ> new_team e (length (teams d)) = uuidv4 e"
    by (rule ext) (simp add: new_team_def)
  with assms show ?thesis
    by (simp add: op admin_teams_create_closed Int_commute)
next
  case False
  with step_team_ids [of d op] assms(1) show ?thesis
    by auto
qed

lemma run_keeps_team_ids_distinct:
  "distinct (map team_id (teams d)) \<Longrightarrow> fresh_run d ops \<Longrightarrow>
   distinct (map team_id (teams (run d ops)))"
  unfolding run_def
  by (induction ops arbitrary: d) (simp_all add: step_keeps_team_ids_distinct)

lemma zero_scores_fold:
  fixes ts xs :: "team list"
  shows "distinct (map team_id ts) \<Longrightarrow>
   fold (\<lambda>t ts. update_first (\<lambda>u. team_id u = team_id t) (\<lambda>u. u\<lparr>score := 0\<rparr>) ts) xs ts =
   map (\<lambda>u. if team_id u \<in> team_id ` set xs then u\<lparr>score := 0\<rparr> else u) ts"
proof (induction xs arbitrary: ts)
  case Nil
  then show ?case by simp
next
  case (Cons x xs)
  let ?z = "\<lambda>u::team. u\<lparr>score := 0\<rparr>"
  let ?ts = "map (\<lambda>u. if team_id u = team_id x then ?z u else u) ts"
  have u: "update_first (\<lambda>u. team_id u = team_id x) ?z ts = ?ts"
    using Cons.prems by (simp add: update_first_distinct_key [where g = team_id])
  have "map team_id ?ts = map team_id ts"
    by (induction ts) auto
  with Cons.prems have "distinct (map team_id ?ts)"
    by (simp only:)
  from Cons.IH [OF this] show ?case
    by (simp add: u comp_def)
qed

lemma admin_reset_teams:
  assumes "distinct (map team_id (teams d))"
  shows "teams (snd (admin_reset d)) = map (\<lambda>u. u\<lparr>score := 0\<rparr>) (teams d)"
proof -
  have "teams (snd (admin_reset d)) =
      map (\<lambda>u. if team_id u \<in> team_id ` set (teams d) then u\<lparr>score := 0\<rparr> else u) (teams d)"
    using zero_scores_fold [OF assms, of "teams d"]
    by (simp add: admin_reset_def Let_def)
  also have "\<dots> = map (\<lambda>u. u\<lparr>score := 0\<rparr>) (teams d)"
    by (rule map_cong) auto
  finally show ?thesis .
qed

lemma reset_after_fresh_run:
  assumes "fresh_run defaults ops"
  shows "map score (teams (snd (admin_reset (run defaults ops)))) =
         replicate (length (teams (run defaults ops))) 0"
proof -
  have "distinct (map team_id (teams defaults))"
    by (simp add: defaults_def)
  from run_keeps_team_ids_distinct [OF this assms]
  have "teams (snd (admin_reset (run defaults ops))) =
      map (\<lambda>u. u\<lparr>score := 0\<rparr>) (teams (run defaults ops))"
    by (rule admin_reset_teams)
  then show ?thesis
    by (simp add: comp_def map_replicate_const)
qed

text \<open>
  C8. In a store whose teams have pairwise different ids, the reset of the scores empties
  the Records, sets the score of every team to 0, keeps every team's id and name and the
  order of the teams, and leaves the tasks, the events and the log entries as they are.
  The team ids are pairwise different in every store reached from the empty defaults by
  requests whose batch creations get new ids from \<open>uuidv4()\<close>.
\<close>

theorem reset_scores_effect:
  "(distinct (map team_id (teams d)) \<longrightarrow>
      fst (admin_reset d) = Json 200 Ok_true \<and>
      records (snd (admin_reset d)) = [] \<and>
      teams (snd (admin_reset d)) = map (\<lambda>u. u\<lparr>score := 0\<rparr>) (teams d) \<and>
      map score (teams (snd (admin_reset d))) = replicate (length (teams d)) 0 \<and>
      map team_id (teams (snd (admin_reset d))) = map team_id (teams d) \<and>
      map team_name (teams (snd (admin_reset d))) = map team_name (teams d) \<and>
      tasks (snd (admin_reset d)) = tasks d \<and>
      events (snd (admin_reset d)) = events d \<and>
      logs (snd (admin_reset d)) = logs d) \<and>
   (\<forall>ops. fresh_run defaults ops \<longrightarrow> distinct (map team_id (teams (run defaults ops))))"
proof (intro conjI allI impI)
  fix ops
  assume "fresh_run defaults ops"
  moreover have "distinct (map team_id (teams defaults))"
    by (simp add: defaults_def)
  ultimately show "distinct (map team_id (teams (run defaults ops)))"
    by (simp add: run_keeps_team_ids_distinct)
next
  assume d: "distinct (map team_id (teams d))"
  show "teams (snd (admin_reset d)) = map (\<lambda>u. u\<lparr>score := 0\<rparr>) (teams d)"
    by (rule admin_reset_teams [OF d])
  then show "map score (teams (snd (admin_reset d))) = replicate (length (teams d)) 0"
    "map team_id (teams (snd (admin_reset d))) = map team_id (teams d)"
    "map team_name (teams (snd (admin_reset d))) = map team_name (teams d)"
    by (simp_all add: comp_def map_replicate_const)
qed (simp_all add: admin_reset_def Let_def)

theorem reset_scores_effect_witness:
  "distinct (map team_id (teams ex_answered)) \<and>
   score_of ex_answered ''X'' = Some 10 \<and>
   snd (admin_reset ex_answered) = ex_db\<lparr>logs := logs ex_answered\<rparr> \<and>
   logs ex_answered \<noteq> [] \<and>
   fresh_run defaults [Teams_create (Some ''3'') ex_env] \<and>
   distinct (map team_id (teams (run defaults [Teams_create (Some ''3'') ex_env])))"
proof -
  have d: "distinct (map team_id (teams ex_answered))"
    by (simp add: ex_answered_eq)
  have s: "score_of ex_answered ''X'' = Some 10"
    by (simp add: ex_answered_eq score_of_def find_by_id_def)
  from reset_scores_effect [of ex_answered] d
  have r: "snd (admin_reset ex_answered) = ex_db\<lparr>logs := logs ex_answered\<rparr>"
    by (simp add: ex_answered_eq ex_db_def ex_team_def)
  have c: "count_of (Some ''3'') = 3"
    by (simp add: count_of_def js_defs)
  have u: "[0..<3] = [0, 1, 2]"
    by (simp add: upt_rec)
  have f: "fresh_run defaults [Teams_create (Some ''3'') ex_env]"
    by (simp add: c u ex_env_def defaults_def string_of_nat_digit digit_char_def)
  from reset_scores_effect [of ex_answered] f
  have "distinct (map team_id (teams (run defaults [Teams_create (Some ''3'') ex_env])))"
    by blast
  with d s r f show ?thesis
    by (simp add: ex_answered_eq)
qed

section \<open>Appending to an event\<close>

lemma assign_event:
  "(\<lambda>x::event. x\<lparr>event_id := event_id n, event_name := event_name n, teamIds := teamIds n,
      taskIds := taskIds n, created := created n\<rparr>) = (\<lambda>x. n)"
  by (rule ext) simp

lemma events_append_found:
  assumes "find_by_id event_id (events d) (Some i) = Some ev"
  shows "admin_events_append d i ts ks =
     (Json 200 (Event_json
        (ev\<lparr>teamIds := Array_from_Set (teamIds ev @ (case ts of None \<Rightarrow> [] | Some xs \<Rightarrow> xs)),
            taskIds := Array_from_Set (taskIds ev @ (case ks of None \<Rightarrow> [] | Some xs \<Rightarrow> xs))\<rparr>)),
      d\<lparr>events := update_first (\<lambda>x. event_id x = i)
           (\<lambda>x. ev\<lparr>teamIds := Array_from_Set (teamIds ev @ (case ts of None \<Rightarrow> [] | Some xs \<Rightarrow> xs)),
                   taskIds := Array_from_Set (taskIds ev @ (case ks of None \<Rightarrow> [] | Some xs \<Rightarrow> xs))\<rparr>)
           (events d)\<rparr>)"
  unfolding admin_events_append_def Let_def assign_event
  using assms by (auto simp: find_by_id_def dest: find_Some_holds)

text \<open>
  C5. Appending to an event: when no Event has the id the reply is 404 and the store is
  unchanged. Otherwise the reply holds the updated Event, which is the one stored under
  the id afterwards; its teamIds hold exactly the previous and the provided team ids, each
  once, and likewise its taskIds; its id, name and creation time are the previous ones;
  and the other events and every other collection are unchanged.
\<close>

theorem events_append_union:
  "(find_by_id event_id (events d) (Some i) = None \<longrightarrow>
      admin_events_append d i ts ks = (Json 404 (Error_json ''Event ikke fundet''), d)) \<and>
   (\<forall>ev. find_by_id event_id (events d) (Some i) = Some ev \<longrightarrow>
      (\<exists>next. fst (admin_events_append d i ts ks) = Json 200 (Event_json next) \<and>
         find_by_id event_id (events (snd (admin_events_append d i ts ks))) (Some i) = Some next \<and>
         set (teamIds next) = set (teamIds ev) \<union> set (case ts of None \<Rightarrow> [] | Some xs \<Rightarrow> xs) \<and>
         distinct (teamIds next) \<and>
         set (taskIds next) = set (taskIds ev) \<union> set (case ks of None \<Rightarrow> [] | Some xs \<Rightarrow> xs) \<and>
         distinct (taskIds next) \<and>
         event_id next = event_id ev \<and> event_name next = event_name ev \<and>
         created next = created ev) \<and>
      (\<forall>j. j \<noteq> i \<longrightarrow>
         find_by_id event_id (events (snd (admin_events_append d i ts ks))) (Some j) =
         find_by_id event_id (events d) (Some j)) \<and>
      length (events (snd (admin_events_append d i ts ks))) = length (events d) \<and>
      teams (snd (admin_events_append d i ts ks)) = teams d \<and>
      tasks (snd (admin_events_append d i ts ks)) = tasks d \<and>
      records (snd (admin_events_append d i ts ks)) = records d \<and>
      logs (snd (admin_events_append d i ts ks)) = logs d)"
proof (intro conjI allI impI)
  assume "find_by_id event_id (events d) (Some i) = None"
  then show "admin_events_append d i ts ks = (Json 404 (Error_json ''Event ikke fundet''), d)"
    by (simp add: admin_events_append_def)
next
  fix ev
  assume f: "find_by_id event_id (events d) (Some i) = Some ev"
  let ?next = "ev\<lparr>teamIds := Array_from_Set (teamIds ev @ (case ts of None \<Rightarrow> [] | Some xs \<Rightarrow> xs)),
                   taskIds := Array_from_Set (taskIds ev @ (case ks of None \<Rightarrow> [] | Some xs \<Rightarrow> xs))\<rparr>"
  note a = events_append_found [OF f, of ts ks]
  from f have i: "event_id ev = i"
    by (auto simp: find_by_id_def dest: find_Some_holds)
  have hit: "find_by_id event_id (events (snd (admin_events_append d i ts ks))) (Some i) = Some ?next"
    using f by (simp add: a find_by_id_def find_update_first_hit i)
  show "\<exists>next. fst (admin_events_append d i ts ks) = Json 200 (Event_json next) \<and>
         find_by_id event_id (events (snd (admin_events_append d i ts ks))) (Some i) = Some next \<and>
         set (teamIds next) = set (teamIds ev) \<union> set (case ts of None \<Rightarrow> [] | Some xs \<Rightarrow> xs) \<and>
         distinct (teamIds next) \<and>
         set (taskIds next) = set (taskIds ev) \<union> set (case ks of None \<Rightarrow> [] | Some xs \<Rightarrow> xs) \<and>
         distinct (taskIds next) \<and>
         event_id next = event_id ev \<and> event_name next = event_name ev \<and>
         created next = created ev"
    by (rule exI [of _ ?next])
       (simp add: hit, simp add: a set_Array_from_Set distinct_Array_from_Set)
  show "find_by_id event_id (events (snd (admin_events_append d i ts ks))) (Some j) =
         find_by_id event_id (events d) (Some j)" if "j \<noteq> i" for j
    using that i by (simp add: a find_by_id_def) (rule find_update_first_miss, simp_all)
  show "length (events (snd (admin_events_append d i ts ks))) = length (events d)"
    by (simp add: a length_update_first)
  show "teams (snd (admin_events_append d i ts ks)) = teams d"
    "tasks (snd (admin_events_append d i ts ks)) = tasks d"
    "records (snd (admin_events_append d i ts ks)) = records d"
    "logs (snd (admin_events_append d i ts ks)) = logs d"
    by (simp_all add: a)
qed

theorem events_append_union_witness:
  "find_by_id event_id (events ex_db) (Some ''nope'') = None \<and>
   admin_events_append ex_db ''nope'' (Some [''X'']) None = (Json 404 (Error_json ''Event ikke fundet''), ex_db) \<and>
   find_by_id event_id (events ex_db) (Some ''E'') = Some ex_event \<and>
   fst (admin_events_append ex_db ''E'' (Some [''Y'', ''X'', ''Y'']) (Some [''T''])) =
     Json 200 (Event_json (ex_event\<lparr>teamIds := [''X'', ''Y''], taskIds := [''T'']\<rparr>)) \<and>
   find_by_id event_id (events (snd (admin_events_append ex_db ''E'' (Some [''Y'', ''X'', ''Y'']) (Some [''T''])))) (Some ''F'') =
     Some ex_event2"
proof -
  have n: "find_by_id event_id (events ex_db) (Some ''nope'') = None"
    by (simp add: js_defs ex_defs)
  have f: "find_by_id event_id (events ex_db) (Some ''E'') = Some ex_event"
    by (simp add: js_defs ex_defs)
  have f2: "find_by_id event_id (events ex_db) (Some ''F'') = Some ex_event2"
    by (simp add: js_defs ex_defs)
  have r: "fst (admin_events_append ex_db ''E'' (Some [''Y'', ''X'', ''Y'']) (Some [''T''])) =
     Json 200 (Event_json (ex_event\<lparr>teamIds := [''X'', ''Y''], taskIds := [''T'']\<rparr>))"
    by (simp add: events_append_found [OF f] Array_from_Set_def Set_add_def ex_event_def)
  from events_append_union [of ex_db "''nope''" "Some [''X'']" None] n
  have a: "admin_events_append ex_db ''nope'' (Some [''X'']) None =
      (Json 404 (Error_json ''Event ikke fundet''), ex_db)"
    by simp
  from events_append_union [of ex_db "''E''" "Some [''Y'', ''X'', ''Y'']" "Some [''T'']"] f
  have "\<forall>j. j \<noteq> ''E'' \<longrightarrow>
      find_by_id event_id (events (snd (admin_events_append ex_db ''E'' (Some [''Y'', ''X'', ''Y'']) (Some [''T''])))) (Some j) =
      find_by_id event_id (events ex_db) (Some j)"
    by blast
  then have "find_by_id event_id (events (snd (admin_events_append ex_db ''E'' (Some [''Y'', ''X'', ''Y'']) (Some [''T''])))) (Some ''F'') =
      find_by_id event_id (events ex_db) (Some ''F'')"
    by simp
  with n a f f2 r show ?thesis
    by simp
qed

section \<open>The event-info endpoint\<close>

lemma api_event_shape: "\<exists>info. fst (api_event srv req eventId) = Json 200 (Event_info info)"
  by (auto simp: api_event_def api_event_try_def Let_def split: sum.splits option.splits prod.splits)

text \<open>
  C9. The reply of the event-info endpoint is always a 200 JSON reply \<open>{event: ..}\<close>. It is
  \<open>{event: null}\<close> when no tenant can be resolved, when resolving the tenant's store throws
  (the failure is swallowed by the catch block), when there is no eventId cookie and when
  the event id matches no Event of the store; otherwise it is the id and the name of the
  Event found.
\<close>

theorem api_event_never_errors:
  "(\<exists>info. fst (api_event srv req eventId) = Json 200 (Event_info info)) \<and>
   (\<not> truthy (resolveTenantFromReq req) \<longrightarrow>
      fst (api_event srv req eventId) = Json 200 (Event_info None)) \<and>
   (\<forall>err. getTenantDb srv (resolveTenantFromReq req) = Inl err \<longrightarrow>
      fst (api_event srv req eventId) = Json 200 (Event_info None)) \<and>
   (\<not> truthy eventId \<longrightarrow> fst (api_event srv req eventId) = Json 200 (Event_info None)) \<and>
   (\<forall>d srv'. getTenantDb srv (resolveTenantFromReq req) = Inr (d, srv') \<and>
        find_by_id event_id (events d) eventId = None \<longrightarrow>
      fst (api_event srv req eventId) = Json 200 (Event_info None)) \<and>
   (\<forall>d srv' ev. truthy (resolveTenantFromReq req) \<and> truthy eventId \<and>
        getTenantDb srv (resolveTenantFromReq req) = Inr (d, srv') \<and>
        find_by_id event_id (events d) eventId = Some ev \<longrightarrow>
      fst (api_event srv req eventId) = Json 200 (Event_info (Some (event_id ev, event_name ev))))"
proof (intro conjI allI impI)
  show "\<exists>info. fst (api_event srv req eventId) = Json 200 (Event_info info)"
    by (rule api_event_shape)
qed (auto simp: api_event_def api_event_try_def Let_def split: sum.splits option.splits)

theorem api_event_never_errors_witness:
  "resolveTenantFromReq (ex_tenant (Some '' acme '')) = Some ''acme'' \<and>
   fst (api_event ex_server (ex_tenant (Some '' acme '')) (Some ''E'')) =
     Json 200 (Event_info (Some (''E'', ''Finale''))) \<and>
   fst (api_event ex_server (ex_tenant (Some '' acme '')) (Some ''Z'')) = Json 200 (Event_info None) \<and>
   fst (api_event ex_server (ex_tenant (Some '' acme '')) None) = Json 200 (Event_info None) \<and>
   getTenantDb ex_server (Some ''broken'') = Inl ''Malformed JSON'' \<and>
   fst (api_event ex_server (ex_tenant (Some ''broken'')) (Some ''E'')) = Json 200 (Event_info None) \<and>
   resolveTenantFromReq (ex_tenant None) = None \<and>
   fst (api_event ex_server (ex_tenant None) (Some ''E'')) = Json 200 (Event_info None)"
proof -
  have t: "resolveTenantFromReq (ex_tenant (Some '' acme '')) = Some ''acme''"
    "resolveTenantFromReq (ex_tenant (Some ''broken'')) = Some ''broken''"
    "resolveTenantFromReq (ex_tenant None) = None"
    by (simp_all add: resolveTenantFromReq_def js_defs ex_tenant_def)
  have g: "getTenantDb ex_server (Some ''acme'') = Inr (ex_db, ex_server)"
    "getTenantDb ex_server (Some ''broken'') = Inl ''Malformed JSON''"
    by (simp_all add: getTenantDb_def js_defs ex_server_def Let_def)
  have f: "find_by_id event_id (events ex_db) (Some ''E'') = Some ex_event"
    "find_by_id event_id (events ex_db) (Some ''Z'') = None"
    by (simp_all add: js_defs ex_defs)
  have y: "truthy (Some ''acme'')" "truthy (Some ''E'')" "\<not> truthy None"
    by (simp_all add: truthy_def)
  note w = api_event_never_errors [of ex_server]
  from w [of "ex_tenant (Some '' acme '')" "Some ''E''"] t g f y
  have 1: "fst (api_event ex_server (ex_tenant (Some '' acme '')) (Some ''E'')) =
     Json 200 (Event_info (Some (''E'', ''Finale'')))"
    by (simp add: ex_event_def)
  from w [of "ex_tenant (Some '' acme '')" "Some ''Z''"] t g f
  have 2: "fst (api_event ex_server (ex_tenant (Some '' acme '')) (Some ''Z'')) = Json 200 (Event_info None)"
    by simp
  from w [of "ex_tenant (Some '' acme '')" None] y
  have 3: "fst (api_event ex_server (ex_tenant (Some '' acme '')) None) = Json 200 (Event_info None)"
    by simp
  from w [of "ex_tenant (Some ''broken'')" "Some ''E''"] t g
  have 4: "fst (api_event ex_server (ex_tenant (Some ''broken'')) (Some ''E'')) = Json 200 (Event_info None)"
    by simp
  from w [of "ex_tenant None" "Some ''E''"] t y
  have 5: "fst (api_event ex_server (ex_tenant None) (Some ''E'')) = Json 200 (Event_info None)"
    by simp
  from t g 1 2 3 4 5 show ?thesis
    by simp
qed

end
